theory Spec2Isabelle
  imports Main "HOL-Library.Multiset"
begin

section \<open>JavaScript values\<close>

text \<open>
  The client code works on plain JavaScript data: message and session objects, arrays of
  them, what \<^verbatim>\<open>JSON.parse\<close> returns. Objects are association lists in insertion
  order (JavaScript enumerates integer-like keys first; nothing below observes that order),
  numbers are restricted to integer values (no fraction, NaN or infinity), and a string is
  a list of 8-bit characters.
\<close>

datatype jsval =
    JUndefined
  | JNull
  | JBool bool
  | JNum int
  | JStr string
  | JArr "jsval list"
  | JObj "(string \<times> jsval) list"

text \<open>
  A thrown value. Every exception met here is an Error object of the platform; the code
  reads its \<^verbatim>\<open>message\<close> only. The texts of the platform's own messages differ between
  engines; the model keeps a representative one.
\<close>

datatype js_error =
    TypeError (message: string)
  | SyntaxError (message: string)
  | Error (message: string)

text \<open>Sequencing of steps that may throw: the first exception ends the computation.\<close>

definition and_then :: "js_error + 'a \<Rightarrow> ('a \<Rightarrow> js_error + 'b) \<Rightarrow> js_error + 'b" where
  "and_then m f = (case m of Inl e \<Rightarrow> Inl e | Inr v \<Rightarrow> f v)"

text \<open>ToBoolean, as used by \<^verbatim>\<open>!\<close>, \<^verbatim>\<open>||\<close> and \<^verbatim>\<open>? :\<close>.\<close>

fun truthy :: "jsval \<Rightarrow> bool" where
  "truthy JUndefined = False"
| "truthy JNull = False"
| "truthy (JBool b) = b"
| "truthy (JNum n) = (n \<noteq> 0)"
| "truthy (JStr s) = (s \<noteq> [])"
| "truthy (JArr xs) = True"
| "truthy (JObj kvs) = True"

text \<open>\<^verbatim>\<open>a || b\<close>\<close>

definition or_else :: "jsval \<Rightarrow> jsval \<Rightarrow> jsval" where
  "or_else a b = (if truthy a then a else b)"

text \<open>The own property \<open>k\<close> of an object, \<^verbatim>\<open>undefined\<close> when it has none.\<close>

fun lookup :: "(string \<times> jsval) list \<Rightarrow> string \<Rightarrow> jsval" where
  "lookup [] k = JUndefined"
| "lookup ((k', v) # kvs) k = (if k' = k then v else lookup kvs k)"

text \<open>
  \<^verbatim>\<open>v.k\<close> for a value that is neither \<^verbatim>\<open>null\<close> nor \<^verbatim>\<open>undefined\<close>, and for the
  property names this program reads (\<^verbatim>\<open>role\<close>, \<^verbatim>\<open>content\<close>, \<^verbatim>\<open>isLoading\<close>,
  \<^verbatim>\<open>id\<close>, \<^verbatim>\<open>response\<close>, ...), none of which a built-in prototype defines: primitives
  and arrays answer \<^verbatim>\<open>undefined\<close>.
\<close>

fun read_prop :: "jsval \<Rightarrow> string \<Rightarrow> jsval" where
  "read_prop (JObj kvs) k = lookup kvs k"
| "read_prop v k = JUndefined"

definition nullish :: "jsval \<Rightarrow> bool" where
  "nullish v = (v = JNull \<or> v = JUndefined)"

text \<open>\<^verbatim>\<open>v.k\<close> in general: reading a property of \<^verbatim>\<open>null\<close> or \<^verbatim>\<open>undefined\<close> throws.\<close>

definition get_prop :: "jsval \<Rightarrow> string \<Rightarrow> js_error + jsval" where
  "get_prop v k =
     (if nullish v then Inl (TypeError (''Cannot read properties of null or undefined: '' @ k))
      else Inr (read_prop v k))"

text \<open>
  \<^verbatim>\<open>a === b\<close>. Primitives are compared by value. Two objects (or arrays) are equal only
  when they are the same object, which a structural value cannot tell: the definition
  answers \<open>False\<close> for them, which is exact whenever one side is a primitive or was freshly
  created (by \<^verbatim>\<open>JSON.parse\<close>, say).
\<close>

fun is_primitive :: "jsval \<Rightarrow> bool" where
  "is_primitive (JArr xs) = False"
| "is_primitive (JObj kvs) = False"
| "is_primitive v = True"

definition strict_eq :: "jsval \<Rightarrow> jsval \<Rightarrow> bool" where
  "strict_eq a b = (is_primitive a \<and> a = b)"

text \<open>\<^verbatim>\<open>xs.filter(p)\<close> and \<^verbatim>\<open>xs.map(f)\<close> on an array, with a callback that may throw.\<close>

fun array_filter :: "(jsval \<Rightarrow> js_error + bool) \<Rightarrow> jsval list \<Rightarrow> js_error + jsval list" where
  "array_filter p [] = Inr []"
| "array_filter p (x # xs) =
     and_then (p x) (\<lambda>keep.
     and_then (array_filter p xs) (\<lambda>rest.
       Inr (if keep then x # rest else rest)))"

fun array_map :: "(jsval \<Rightarrow> js_error + 'b) \<Rightarrow> jsval list \<Rightarrow> js_error + 'b list" where
  "array_map f [] = Inr []"
| "array_map f (x # xs) =
     and_then (f x) (\<lambda>y.
     and_then (array_map f xs) (\<lambda>ys.
       Inr (y # ys)))"

text \<open>
  \<^verbatim>\<open>v.filter(p)\<close> on any value: only an array has the method (an object read from JSON,
  a string, a number have none, and \<^verbatim>\<open>null\<close> has no properties at all).
\<close>

definition call_filter :: "(jsval \<Rightarrow> js_error + bool) \<Rightarrow> jsval \<Rightarrow> js_error + jsval list" where
  "call_filter p v =
     (case v of
        JArr xs \<Rightarrow> array_filter p xs
      | _ \<Rightarrow> Inl (TypeError ''filter is not a function''))"

text \<open>Decimal text of a number, as a template literal prints it.\<close>

function show_nat :: "nat \<Rightarrow> string" where
  "show_nat n =
     (if n < 10 then [char_of (48 + n)]
      else show_nat (n div 10) @ [char_of (48 + n mod 10)])"
  by pat_completeness auto
termination
  by (relation "measure id") auto

declare show_nat.simps [simp del]

definition show_int :: "int \<Rightarrow> string" where
  "show_int i = (if i < 0 then CHR ''-'' # show_nat (nat (- i)) else show_nat (nat i))"

text \<open>
  ToString, as a template literal applies it. An array prints its elements joined by
  commas, \<^verbatim>\<open>null\<close> and \<^verbatim>\<open>undefined\<close> elements as the empty text. An object prints
  \<^verbatim>\<open>[object Object]\<close> through the inherited \<^verbatim>\<open>toString\<close>; an own property of that
  name (never a function in JSON data) hides the method, and the conversion throws.
\<close>

fun to_string :: "jsval \<Rightarrow> js_error + string"
  and join_comma :: "jsval list \<Rightarrow> js_error + string" where
  "to_string JUndefined = Inr ''undefined''"
| "to_string JNull = Inr ''null''"
| "to_string (JBool b) = Inr (if b then ''true'' else ''false'')"
| "to_string (JNum n) = Inr (show_int n)"
| "to_string (JStr s) = Inr s"
| "to_string (JArr xs) = join_comma xs"
| "to_string (JObj kvs) =
     (if ''toString'' \<in> set (map fst kvs)
      then Inl (TypeError ''Cannot convert object to primitive value'')
      else Inr ''[object Object]'')"
| "join_comma [] = Inr []"
| "join_comma (x # xs) =
     and_then (if x = JNull \<or> x = JUndefined then Inr [] else to_string x) (\<lambda>s.
     and_then (join_comma xs) (\<lambda>rest.
       Inr (if xs = [] then s else s @ '','' @ rest)))"

section \<open>The API client: getAIMessage\<close>

text \<open>
  What \<^verbatim>\<open>fetch\<close> can do with a request: reject (a network failure), or resolve with a
  response, whose \<^verbatim>\<open>text()\<close> and \<^verbatim>\<open>json()\<close> may reject in turn (\<^verbatim>\<open>json()\<close> with a
  SyntaxError on a body that is not JSON). The record holds what the code reads of a
  response: its status, and the outcomes of the two readers.
\<close>

record response =
  status :: nat
  text_result :: "js_error + string"
  json_result :: "js_error + jsval"

text \<open>\<^verbatim>\<open>response.ok\<close>: the status is in the range 200 to 299.\<close>

definition ok :: "response \<Rightarrow> bool" where
  "ok response = (200 \<le> status response \<and> status response \<le> 299)"

datatype fetch_outcome = Rejected js_error | Resolved response

text \<open>A default parameter value: it stands in for \<^verbatim>\<open>undefined\<close> only.\<close>

definition default_param :: "jsval \<Rightarrow> jsval \<Rightarrow> jsval" where
  "default_param v d = (if v = JUndefined then d else v)"

text \<open>
  \<^verbatim>\<open>conversationHistory.filter(msg => !msg.isLoading).map(msg => ({role: msg.role,
  content: msg.content}))\<close>
\<close>

definition formattedHistory :: "jsval \<Rightarrow> js_error + jsval list" where
  "formattedHistory conversationHistory =
     and_then
       (call_filter
          (\<lambda>msg. and_then (get_prop msg ''isLoading'') (\<lambda>l. Inr (\<not> truthy l)))
          conversationHistory)
       (array_map
          (\<lambda>msg. and_then (get_prop msg ''role'') (\<lambda>r.
                  and_then (get_prop msg ''content'') (\<lambda>c.
                    Inr (JObj [(''role'', r), (''content'', c)])))))"

text \<open>
  The body of the \<^verbatim>\<open>try\<close> block. The first component is the object handed to
  \<^verbatim>\<open>JSON.stringify\<close> as the request body, when the code got as far as calling
  \<^verbatim>\<open>fetch\<close>; the second is the message returned or the exception thrown. \<open>fetch\<close> is
  the network's answer to a request body, \<open>now\<close> the clock's \<^verbatim>\<open>new
  Date().toISOString()\<close>.
\<close>

definition getAIMessage_try ::
  "(jsval \<Rightarrow> fetch_outcome) \<Rightarrow> string \<Rightarrow> jsval \<Rightarrow> jsval \<Rightarrow> jsval option \<times> (js_error + jsval)" where
  \<open>getAIMessage_try fetch now userQuery conversationHistory =
     (case formattedHistory (default_param conversationHistory (JArr [])) of
        Inl e \<Rightarrow> (None, Inl e)
      | Inr formatted \<Rightarrow>
          (let body = JObj [(''query'', userQuery), (''conversation_history'', JArr formatted)]
           in (Some body,
               (case fetch body of
                  Rejected e \<Rightarrow> Inl e
                | Resolved response \<Rightarrow>
                    if \<not> ok response then
                      and_then (text_result response) (\<lambda>errorText.
                        Inl (Error (''HTTP error! Status: '' @ show_nat (status response))))
                    else
                      and_then (json_result response) (\<lambda>data.
                      and_then (get_prop data ''response'') (\<lambda>r.
                        Inr (JObj [(''role'', JStr ''assistant''),
                                   (''content'',
                                      or_else r (JStr ''Sorry, I couldn't process your request.'')),
                                   (''timestamp'', JStr now)])))))))\<close>

text \<open>The \<^verbatim>\<open>catch\<close> block: the local apology message.\<close>

definition apology :: "string \<Rightarrow> string" where
  "apology msg =
     ''Sorry, I encountered an error while processing your request: '' @ msg @
     ''. Please try again later.''"

definition getAIMessage_catch :: "string \<Rightarrow> js_error \<Rightarrow> jsval" where
  "getAIMessage_catch now error =
     JObj [(''role'', JStr ''assistant''),
           (''content'', JStr (apology (message error))),
           (''timestamp'', JStr now)]"

definition getAIMessage ::
  "(jsval \<Rightarrow> fetch_outcome) \<Rightarrow> string \<Rightarrow> jsval \<Rightarrow> jsval \<Rightarrow> jsval option \<times> (js_error + jsval)" where
  "getAIMessage fetch now userQuery conversationHistory =
     (case getAIMessage_try fetch now userQuery conversationHistory of
        (sent, Inr msg) \<Rightarrow> (sent, Inr msg)
      | (sent, Inl error) \<Rightarrow> (sent, Inr (getAIMessage_catch now error)))"

text \<open>
  The earlier \<^verbatim>\<open>getAIMessage\<close> of \<^verbatim>\<open>src/frontend/src/api/api.js\<close>: it sends the
  query alone and returns a message without a timestamp.
\<close>

definition getAIMessage_api_try ::
  "(jsval \<Rightarrow> fetch_outcome) \<Rightarrow> jsval \<Rightarrow> jsval option \<times> (js_error + jsval)" where
  \<open>getAIMessage_api_try fetch userQuery =
     (let body = JObj [(''query'', userQuery)]
      in (Some body,
          (case fetch body of
             Rejected e \<Rightarrow> Inl e
           | Resolved response \<Rightarrow>
               if \<not> ok response then
                 and_then (text_result response) (\<lambda>errorText.
                   Inl (Error (''HTTP error! Status: '' @ show_nat (status response))))
               else
                 and_then (json_result response) (\<lambda>data.
                 and_then (get_prop data ''response'') (\<lambda>r.
                   Inr (JObj [(''role'', JStr ''assistant''),
                              (''content'',
                                 or_else r (JStr ''Sorry, I couldn't process your request.''))]))))))\<close>

definition getAIMessage_api ::
  "(jsval \<Rightarrow> fetch_outcome) \<Rightarrow> jsval \<Rightarrow> jsval option \<times> (js_error + jsval)" where
  "getAIMessage_api fetch userQuery =
     (case getAIMessage_api_try fetch userQuery of
        (sent, Inr msg) \<Rightarrow> (sent, Inr msg)
      | (sent, Inl error) \<Rightarrow>
          (sent, Inr (JObj [(''role'', JStr ''assistant''),
                            (''content'', JStr (apology (message error)))])))"

section \<open>The chat window: rendering product fragments\<close>

text \<open>A template literal: its parts are evaluated from left to right and concatenated.\<close>

fun concat_parts :: "(js_error + string) list \<Rightarrow> js_error + string" where
  "concat_parts [] = Inr []"
| "concat_parts (p # ps) =
     and_then p (\<lambda>s.
     and_then (concat_parts ps) (\<lambda>rest.
       Inr (s @ rest)))"

text \<open>\<^verbatim>\<open>${e}\<close>: the value of \<open>e\<close>, converted to a string.\<close>

definition interpolate :: "js_error + jsval \<Rightarrow> js_error + string" where
  "interpolate e = and_then e to_string"

text \<open>\<^verbatim>\<open>a || b\<close> on operands that may throw; \<open>b\<close> counts only when \<open>a\<close> is falsy.\<close>

definition or_else_m :: "js_error + jsval \<Rightarrow> js_error + jsval \<Rightarrow> js_error + jsval" where
  "or_else_m a b = and_then a (\<lambda>v. if truthy v then Inr v else b)"

text \<open>\<^verbatim>\<open>${c ? `...` : ''}\<close>\<close>

definition when_truthy :: "js_error + jsval \<Rightarrow> js_error + string \<Rightarrow> js_error + string" where
  "when_truthy c body = and_then c (\<lambda>v. if truthy v then body else Inr [])"

definition renderProductCard :: "jsval \<Rightarrow> js_error + string" where
  \<open>renderProductCard product =
     concat_parts
       [Inr ''\<newline>      <div class="product-card">\<newline>        <div class="product-header">\<newline>          <h3>'',
        interpolate (or_else_m (get_prop product ''part_name'')
                    (or_else_m (get_prop product ''name'') (Inr (JStr ''Product'')))),
        Inr ''</h3>\<newline>          <span class="product-price">'',
        interpolate (or_else_m (get_prop product ''price'') (Inr (JStr []))),
        Inr ''</span>\<newline>        </div>\<newline>        '',
        when_truthy (get_prop product ''image_url'')
          (concat_parts
             [Inr ''<img src="'',
              interpolate (get_prop product ''image_url''),
              Inr ''" alt="'',
              interpolate (or_else_m (get_prop product ''part_name'') (Inr (JStr ''Product''))),
              Inr ''" class="product-image" />'']),
        Inr ''\<newline>        <div class="product-details">\<newline>          '',
        when_truthy (get_prop product ''manufacturer_number'')
          (concat_parts
             [Inr ''<p><strong>Manufacturer #:</strong> '',
              interpolate (get_prop product ''manufacturer_number''),
              Inr ''</p>'']),
        Inr ''\<newline>          '',
        when_truthy (get_prop product ''partselect_number'')
          (concat_parts
             [Inr ''<p><strong>PartSelect #:</strong> '',
              interpolate (get_prop product ''partselect_number''),
              Inr ''</p>'']),
        Inr ''\<newline>          '',
        when_truthy (get_prop product ''description'')
          (concat_parts
             [Inr ''<p>'', interpolate (get_prop product ''description''), Inr ''</p>'']),
        Inr ''\<newline>          '',
        when_truthy (get_prop product ''url'')
          (concat_parts
             [Inr ''<a href="'',
              interpolate (get_prop product ''url''),
              Inr ''" target="_blank" class="product-link">View Details</a>'']),
        Inr ''\<newline>        </div>\<newline>      </div>\<newline>    '']\<close>

text \<open>\<open>products\<close> are the elements of the array the caller found.\<close>

definition renderProductList :: "jsval list \<Rightarrow> js_error + string" where
  \<open>renderProductList products =
     (if length products = 0 then Inr ''<p>No products found</p>''
      else
        concat_parts
          [Inr ''\<newline>      <div class="product-list">\<newline>        '',
           and_then (array_map renderProductCard products) (\<lambda>cards. Inr (concat cards)),
           Inr ''\<newline>      </div>\<newline>    ''])\<close>

text \<open>
  The \<^verbatim>\<open>code\<close> method installed on the markdown renderer. \<open>JSON_parse\<close> is the
  platform's \<^verbatim>\<open>JSON.parse\<close> (\<open>Inl\<close> its SyntaxError) and \<open>originalCodeRenderer\<close>
  the markdown library's own rendering of a code block, a function from the block's text
  and language tag to HTML text. The tag is a string, or \<^verbatim>\<open>undefined\<close> for a block
  without one. Everything between \<^verbatim>\<open>try\<close> and \<^verbatim>\<open>catch\<close> is the inner
  \<open>case\<close>; any exception there selects the original rendering.
\<close>

definition renderer_code ::
  "(string \<Rightarrow> js_error + jsval) \<Rightarrow> (string \<Rightarrow> jsval \<Rightarrow> string) \<Rightarrow> string \<Rightarrow> jsval \<Rightarrow> string" where
  "renderer_code JSON_parse originalCodeRenderer code language =
     (if language = JStr ''json-to-render'' \<or> language = JStr ''dictionary-list-to-render'' then
        (case and_then (JSON_parse code) (\<lambda>jsonData.
                (case jsonData of
                   JArr products \<Rightarrow> renderProductList products
                 | _ \<Rightarrow> renderProductCard jsonData)) of
           Inr html \<Rightarrow> html
         | Inl e \<Rightarrow> originalCodeRenderer code language)
      else originalCodeRenderer code language)"

section \<open>The chat window: sending a message\<close>

text \<open>
  The characters \<^verbatim>\<open>trim\<close> removes, among the 8-bit ones: tab, line feed, vertical
  tab, form feed, carriage return, space and the no-break space.
\<close>

definition js_whitespace :: "char \<Rightarrow> bool" where
  "js_whitespace c = (of_char c \<in> {9, 10, 11, 12, 13, 32, 160 :: nat})"

definition trim :: "string \<Rightarrow> string" where
  "trim s = rev (dropWhile js_whitespace (rev (dropWhile js_whitespace s)))"

text \<open>The component's state variables.\<close>

record chat_state =
  messages :: jsval
  input :: string
  isLoading :: bool
  chatHistory :: jsval
  currentSessionId :: jsval
  showHistory :: bool

text \<open>\<^verbatim>\<open>[...v]\<close>: the elements of an array, the characters of a string.\<close>

definition array_spread :: "jsval \<Rightarrow> js_error + jsval list" where
  "array_spread v =
     (case v of
        JArr xs \<Rightarrow> Inr xs
      | JStr s \<Rightarrow> Inr (map (\<lambda>c. JStr [c]) s)
      | _ \<Rightarrow> Inl (TypeError ''value is not iterable''))"

text \<open>
  The state updater
  \<^verbatim>\<open>prevMessages => [...prevMessages.filter(msg => !msg.isLoading), newMessage]\<close>.
\<close>

definition without_loading_plus :: "jsval \<Rightarrow> jsval \<Rightarrow> js_error + jsval" where
  "without_loading_plus newMessage prevMessages =
     and_then
       (call_filter
          (\<lambda>msg. and_then (get_prop msg ''isLoading'') (\<lambda>l. Inr (\<not> truthy l)))
          prevMessages)
       (\<lambda>kept. Inr (JArr (kept @ [newMessage])))"

text \<open>
  One run of \<^verbatim>\<open>handleSend\<close>, from the submit event to the state after the reply.
  Up to the \<^verbatim>\<open>await\<close> the function sets the state itself. While the request is
  pending the component handles other events (the buttons for a new chat, for loading and
  for deleting a session stay enabled; only the input and the send button are disabled):
  \<open>between\<close> is what they do to the state. After the \<^verbatim>\<open>await\<close> the updater is
  applied to the message list that is current then, and \<^verbatim>\<open>setIsLoading(false)\<close>
  follows. \<open>now_send\<close> and \<open>now_reply\<close> are the clock's readings for the user message
  and for the reply. The result is the new state and the request body posted, if any;
  \<open>Inl\<close> is an exception escaping (from the spread before the \<^verbatim>\<open>try\<close>, or from
  the updater when the component renders next). \<^verbatim>\<open>e.preventDefault()\<close> acts on the
  event only.
\<close>

definition handleSend ::
  "(jsval \<Rightarrow> fetch_outcome) \<Rightarrow> string \<Rightarrow> string \<Rightarrow> (chat_state \<Rightarrow> chat_state) \<Rightarrow> chat_state \<Rightarrow>
     js_error + chat_state \<times> jsval option" where
  "handleSend fetch now_send now_reply between st =
     (if trim (input st) = [] then Inr (st, None)
      else
        and_then (array_spread (messages st)) (\<lambda>previous.
          let userMessage =
                JObj [(''role'', JStr ''user''),
                      (''content'', JStr (input st)),
                      (''timestamp'', JStr now_send)];
              updatedMessages = previous @ [userMessage];
              st1 = st\<lparr>messages := JArr updatedMessages\<rparr>;
              st2 = st1\<lparr>input := []\<rparr>;
              st3 = st2\<lparr>isLoading := True\<rparr>;
              messagesWithLoading =
                updatedMessages @ [JObj [(''role'', JStr ''assistant''), (''isLoading'', JBool True)]];
              st4 = st3\<lparr>messages := JArr messagesWithLoading\<rparr>;
              call = getAIMessage fetch now_reply (JStr (input st)) (JArr updatedMessages);
              current = between st4;
              newMessage =
                (case snd call of
                   Inr aiResponse \<Rightarrow> aiResponse
                 | Inl error \<Rightarrow>
                     JObj [(''role'', JStr ''assistant''),
                           (''content'', JStr ''Sorry, I encountered an error. Please try again later.''),
                           (''timestamp'', JStr now_reply)])
          in and_then (without_loading_plus newMessage (messages current)) (\<lambda>messages'.
               Inr (current\<lparr>messages := messages', isLoading := False\<rparr>, fst call))))"

text \<open>\<^verbatim>\<open>disabled={isLoading || !input.trim()}\<close> on the send button.\<close>

definition send_button_disabled :: "chat_state \<Rightarrow> bool" where
  "send_button_disabled st = (isLoading st \<or> \<not> truthy (JStr (trim (input st))))"

section \<open>Stored chat sessions\<close>

text \<open>
  The entry of \<^verbatim>\<open>localStorage\<close> under the chat-history key, as its readers see it:
  nothing there (or the empty text), a text \<^verbatim>\<open>JSON.parse\<close> rejects, or a text that
  parses to a value. A write stores the JSON text of a value; the model keeps the value
  that was serialised.
\<close>

datatype stored_item = Missing | Unparseable | Parsed jsval

definition getAllChatHistories :: "stored_item \<Rightarrow> jsval" where
  "getAllChatHistories item =
     (case item of
        Missing \<Rightarrow> JArr []
      | Unparseable \<Rightarrow> JArr []
      | Parsed v \<Rightarrow> v)"

text \<open>\<^verbatim>\<open>xs.findIndex(p)\<close>: the first index whose element satisfies \<open>p\<close>, \<open>None\<close> for -1.\<close>

fun array_findIndex :: "(jsval \<Rightarrow> js_error + bool) \<Rightarrow> jsval list \<Rightarrow> js_error + nat option" where
  "array_findIndex p [] = Inr None"
| "array_findIndex p (x # xs) =
     and_then (p x) (\<lambda>hit.
       if hit then Inr (Some 0)
       else and_then (array_findIndex p xs) (\<lambda>r. Inr (map_option Suc r)))"

text \<open>
  \<^verbatim>\<open>{...v}\<close>: the own enumerable properties of a value. An array and a string
  contribute their indexed elements, other primitives nothing.
\<close>

definition spread_props :: "jsval \<Rightarrow> (string \<times> jsval) list" where
  "spread_props v =
     (case v of
        JObj kvs \<Rightarrow> kvs
      | JArr xs \<Rightarrow> zip (map show_nat [0..<length xs]) xs
      | JStr s \<Rightarrow> zip (map show_nat [0..<length s]) (map (\<lambda>c. JStr [c]) s)
      | _ \<Rightarrow> [])"

text \<open>Defining a property of an object under construction: a later one replaces an earlier.\<close>

fun set_prop :: "(string \<times> jsval) list \<Rightarrow> string \<Rightarrow> jsval \<Rightarrow> (string \<times> jsval) list" where
  "set_prop [] k v = [(k, v)]"
| "set_prop ((k', v') # kvs) k v =
     (if k' = k then (k, v) # kvs else (k', v') # set_prop kvs k v)"

definition assign_props :: "(string \<times> jsval) list \<Rightarrow> (string \<times> jsval) list \<Rightarrow> (string \<times> jsval) list" where
  "assign_props base kvs = foldl (\<lambda>acc kv. set_prop acc (fst kv) (snd kv)) base kvs"

text \<open>
  The time value of \<^verbatim>\<open>new Date(v)\<close> in milliseconds, \<open>None\<close> for an invalid date
  (NaN). \<open>Date_parse\<close> is the platform's reading of a date text. An object or array is
  converted to its text first, which throws as \<open>to_string\<close> does.
\<close>

definition time_clip :: "int \<Rightarrow> int option" where
  "time_clip n = (if \<bar>n\<bar> \<le> 8640000000000000 then Some n else None)"

definition new_Date :: "(string \<Rightarrow> int option) \<Rightarrow> jsval \<Rightarrow> js_error + int option" where
  "new_Date Date_parse v =
     (case v of
        JUndefined \<Rightarrow> Inr None
      | JNull \<Rightarrow> Inr (Some 0)
      | JBool b \<Rightarrow> Inr (Some (if b then 1 else 0))
      | JNum n \<Rightarrow> Inr (time_clip n)
      | JStr s \<Rightarrow> Inr (Date_parse s)
      | _ \<Rightarrow> and_then (to_string v) (\<lambda>s. Inr (Date_parse s)))"

text \<open>
  The comparator
  \<^verbatim>\<open>(a, b) => new Date(b.lastUpdated) - new Date(a.lastUpdated)\<close>; \<open>None\<close> is NaN.
\<close>

definition compare_lastUpdated ::
  "(string \<Rightarrow> int option) \<Rightarrow> jsval \<Rightarrow> jsval \<Rightarrow> js_error + int option" where
  "compare_lastUpdated Date_parse a b =
     and_then (get_prop b ''lastUpdated'') (\<lambda>lb.
     and_then (new_Date Date_parse lb) (\<lambda>tb.
     and_then (get_prop a ''lastUpdated'') (\<lambda>la.
     and_then (new_Date Date_parse la) (\<lambda>ta.
       Inr (case (tb, ta) of (Some x, Some y) \<Rightarrow> Some (x - y) | _ \<Rightarrow> None)))))"

text \<open>
  \<^verbatim>\<open>xs.sort(cmp)\<close>: a stable sort, \<open>x\<close> staying before \<open>y\<close> unless \<open>cmp x y\<close> is
  positive (NaN counts as zero); \<^verbatim>\<open>undefined\<close> elements go last, uncompared. With a
  comparator that is not a consistent ordering the standard leaves the order to the
  engine, and this is one admissible outcome. An exception of the comparator ends the sort;
  in a list of two or more, every element is compared at least once.
\<close>

fun insert_sorted ::
  "(jsval \<Rightarrow> jsval \<Rightarrow> js_error + int option) \<Rightarrow> jsval \<Rightarrow> jsval list \<Rightarrow> js_error + jsval list" where
  "insert_sorted cmp x [] = Inr [x]"
| "insert_sorted cmp x (y # ys) =
     and_then (cmp x y) (\<lambda>c.
       if (case c of Some d \<Rightarrow> 0 < d | None \<Rightarrow> False)
       then and_then (insert_sorted cmp x ys) (\<lambda>r. Inr (y # r))
       else Inr (x # y # ys))"

fun sort_defined ::
  "(jsval \<Rightarrow> jsval \<Rightarrow> js_error + int option) \<Rightarrow> jsval list \<Rightarrow> js_error + jsval list" where
  "sort_defined cmp [] = Inr []"
| "sort_defined cmp (x # xs) = and_then (sort_defined cmp xs) (insert_sorted cmp x)"

definition array_sort ::
  "(jsval \<Rightarrow> jsval \<Rightarrow> js_error + int option) \<Rightarrow> jsval list \<Rightarrow> js_error + jsval list" where
  "array_sort cmp xs =
     and_then (sort_defined cmp (filter (\<lambda>x. x \<noteq> JUndefined) xs)) (\<lambda>sorted.
       Inr (sorted @ filter (\<lambda>x. x = JUndefined) xs))"

text \<open>
  The two objects \<^verbatim>\<open>saveChatSession\<close> builds:
  \<^verbatim>\<open>{...histories[existingIndex], ...chatSession, lastUpdated: now}\<close> and
  \<^verbatim>\<open>{...chatSession, lastUpdated: now}\<close>. Then its \<^verbatim>\<open>try\<close> block up to the
  sort: the array that is serialised and stored. Only an array has \<^verbatim>\<open>findIndex\<close>,
  and an index that \<^verbatim>\<open>findIndex\<close> returns is within the array.
\<close>

definition updated_session :: "jsval \<Rightarrow> jsval \<Rightarrow> string \<Rightarrow> jsval" where
  "updated_session existing chatSession now =
     JObj (set_prop
             (assign_props (assign_props [] (spread_props existing)) (spread_props chatSession))
             ''lastUpdated'' (JStr now))"

definition added_session :: "jsval \<Rightarrow> string \<Rightarrow> jsval" where
  "added_session chatSession now =
     JObj (set_prop (assign_props [] (spread_props chatSession)) ''lastUpdated'' (JStr now))"

definition saveChatSession_try ::
  "(string \<Rightarrow> int option) \<Rightarrow> string \<Rightarrow> stored_item \<Rightarrow> jsval \<Rightarrow> js_error + jsval list" where
  "saveChatSession_try Date_parse now item chatSession =
     (case getAllChatHistories item of
        JArr histories \<Rightarrow>
          and_then
            (array_findIndex
               (\<lambda>session. and_then (get_prop session ''id'') (\<lambda>sid.
                          and_then (get_prop chatSession ''id'') (\<lambda>cid.
                            Inr (strict_eq sid cid))))
               histories)
            (\<lambda>existingIndex.
               array_sort (compare_lastUpdated Date_parse)
                 (case existingIndex of
                    Some i \<Rightarrow> histories[i := updated_session (histories ! i) chatSession now]
                  | None \<Rightarrow> histories @ [added_session chatSession now]))
      | _ \<Rightarrow> Inl (TypeError ''findIndex is not a function''))"

text \<open>The new stored item and the function's result; the \<^verbatim>\<open>catch\<close> block stores nothing.\<close>

definition saveChatSession ::
  "(string \<Rightarrow> int option) \<Rightarrow> string \<Rightarrow> stored_item \<Rightarrow> jsval \<Rightarrow> stored_item \<times> bool" where
  "saveChatSession Date_parse now item chatSession =
     (case saveChatSession_try Date_parse now item chatSession of
        Inr histories \<Rightarrow> (Parsed (JArr histories), True)
      | Inl error \<Rightarrow> (item, False))"

definition deleteChatSession :: "stored_item \<Rightarrow> jsval \<Rightarrow> stored_item \<times> bool" where
  "deleteChatSession item sessionId =
     (case call_filter
             (\<lambda>session. and_then (get_prop session ''id'') (\<lambda>sid. Inr (\<not> strict_eq sid sessionId)))
             (getAllChatHistories item) of
        Inr filteredHistories \<Rightarrow> (Parsed (JArr filteredHistories), True)
      | Inl error \<Rightarrow> (item, False))"

text \<open>
  What "sorted by lastUpdated, most recent first" says of a list of sessions: of any two
  of them, both have a valid date of last update (\<open>time_of\<close>), and the one that
  stands first is at least as recent as the other.
\<close>

definition time_of :: "(string \<Rightarrow> int option) \<Rightarrow> jsval \<Rightarrow> int option" where
  "time_of Date_parse session =
     (case new_Date Date_parse (read_prop session ''lastUpdated'') of
        Inr (Some t) \<Rightarrow> Some t
      | _ \<Rightarrow> None)"

definition most_recent_first :: "(string \<Rightarrow> int option) \<Rightarrow> jsval list \<Rightarrow> bool" where
  "most_recent_first Date_parse sessions =
     sorted_wrt
       (\<lambda>a b. case (time_of Date_parse a, time_of Date_parse b) of
                (Some ta, Some tb) \<Rightarrow> tb \<le> ta
              | _ \<Rightarrow> False)
       sessions"

text \<open>
  The chat window keeps its own copy of the session list in its state and writes the
  storage itself. Its two entries: the session list, and the id of the current session
  (\<^verbatim>\<open>setItem\<close> stores the text of the id; the model keeps the id).
\<close>

record local_storage =
  chat_history_entry :: stored_item
  current_session_entry :: "jsval option"

text \<open>
  \<^verbatim>\<open>deleteSession\<close> of the chat window: the state updater of the session list and its
  effects. The Boolean tells whether \<^verbatim>\<open>startNewChat\<close> was scheduled (it runs later, on
  a timer). \<open>Inl\<close> is an exception escaping the updater.
\<close>

definition deleteSession ::
  "chat_state \<Rightarrow> local_storage \<Rightarrow> jsval \<Rightarrow> js_error + chat_state \<times> local_storage \<times> bool" where
  "deleteSession st ls sessionId =
     and_then
       (call_filter
          (\<lambda>session. and_then (get_prop session ''id'') (\<lambda>sid. Inr (\<not> strict_eq sid sessionId)))
          (chatHistory st))
       (\<lambda>updatedHistory.
          let ls1 = ls\<lparr>chat_history_entry := Parsed (JArr updatedHistory)\<rparr>
          in if strict_eq sessionId (currentSessionId st) then
               (if length updatedHistory > 0 then
                  and_then (get_prop (updatedHistory ! 0) ''messages'') (\<lambda>ms.
                  and_then (get_prop (updatedHistory ! 0) ''id'') (\<lambda>first_id.
                    Inr (st\<lparr>messages := ms, currentSessionId := first_id,
                            chatHistory := JArr updatedHistory\<rparr>,
                         ls1\<lparr>current_session_entry := Some first_id\<rparr>,
                         False)))
                else Inr (st\<lparr>chatHistory := JArr updatedHistory\<rparr>, ls1, True))
             else Inr (st\<lparr>chatHistory := JArr updatedHistory\<rparr>, ls1, False))"

text \<open>
  The welcome message list, built once when the component mounts (at the time
  \<open>mounted\<close>), and \<^verbatim>\<open>startNewChat\<close>: a new session with that list is put in front
  of the session list and written to the storage, and it becomes the current session.
  \<open>newSessionId\<close> is what \<^verbatim>\<open>generateSessionId\<close> returned.
\<close>

definition defaultMessage :: "string \<Rightarrow> jsval" where
  \<open>defaultMessage mounted =
     JArr [JObj [(''role'', JStr ''assistant''),
                 (''content'',
                  JStr ''Hi, I'm your appliance parts and repair assistant. How can I help you today?''),
                 (''timestamp'', JStr mounted)]]\<close>

definition startNewChat ::
  "string \<Rightarrow> string \<Rightarrow> string \<Rightarrow> chat_state \<Rightarrow> local_storage \<Rightarrow>
     js_error + chat_state \<times> local_storage" where
  "startNewChat newSessionId now mounted st ls =
     (let newSession =
            JObj [(''id'', JStr newSessionId),
                  (''title'', JStr ''New Conversation''),
                  (''messages'', defaultMessage mounted),
                  (''timestamp'', JStr now)]
      in and_then (array_spread (chatHistory st)) (\<lambda>prevHistory.
           let updatedHistory = newSession # prevHistory;
               st1 = st\<lparr>chatHistory := JArr updatedHistory\<rparr>;
               ls1 = ls\<lparr>chat_history_entry := Parsed (JArr updatedHistory)\<rparr>;
               st2 = st1\<lparr>currentSessionId := JStr newSessionId\<rparr>;
               ls2 = ls1\<lparr>current_session_entry := Some (JStr newSessionId)\<rparr>;
               st3 = st2\<lparr>messages := defaultMessage mounted\<rparr>;
               st4 = st3\<lparr>showHistory := False\<rparr>
           in Inr (st4, ls2)))"

section \<open>Catalog ingestion\<close>

text \<open>
  Modelled from the spec: the Part record of the data model, which no source file
  declares. "Part: part_id (unique), name, manufacturer_number, partselect_number, price,
  image_url, description, detail_url, stock_status (enum: in_stock | out_of_stock |
  unknown), appliance_type, compatible_model_numbers (set of string)." The identity
  \<^verbatim>\<open>part_id\<close> is the key under which the store holds the Part.
\<close>

datatype stock_status = in_stock | out_of_stock | unknown

record part =
  name :: string
  manufacturer_number :: string
  partselect_number :: string
  price :: string
  image_url :: string
  description :: string
  detail_url :: string
  stock :: stock_status
  appliance_type :: string
  compatible_model_numbers :: "string list"

text \<open>
  Modelled from the spec: the stable identity of a Part, "keyed by
  manufacturer_number/partselect_number when present", else by the derived hash.
\<close>

datatype upsert_key = ByManufacturerNumber string | ByPartselectNumber string | ByHash nat

text \<open>
  Modelled from the spec: the upsert key of the ingestion process, which is missing from
  the sources. "Upsert key precedence: manufacturer_number, then partselect_number, then a
  derived hash of (name, appliance_type) when neither identifier is available." The hash
  function is a parameter.
\<close>

definition key_of :: "(string \<times> string \<Rightarrow> nat) \<Rightarrow> part \<Rightarrow> upsert_key" where
  "key_of hash p =
     (if manufacturer_number p \<noteq> [] then ByManufacturerNumber (manufacturer_number p)
      else if partselect_number p \<noteq> [] then ByPartselectNumber (partselect_number p)
      else ByHash (hash (name p, appliance_type p)))"

text \<open>
  Modelled from the spec: \<^verbatim>\<open>upsert_part\<close> of the catalog store, missing from the
  sources. "Upsert: insert-or-update keyed by a stable identity field, safe to repeat";
  all fields but the identity are "replaceable on re-ingestion". The store is the list of
  its Parts, each under its key.
\<close>

fun upsert_part :: "(string \<times> string \<Rightarrow> nat) \<Rightarrow> part \<Rightarrow> (upsert_key \<times> part) list \<Rightarrow> (upsert_key \<times> part) list" where
  "upsert_part hash p [] = [(key_of hash p, p)]"
| "upsert_part hash p ((k, q) # store) =
     (if k = key_of hash p then (k, p) # store else (k, q) # upsert_part hash p store)"

text \<open>
  Modelled from the spec: one run of Ingestion, missing from the sources: the normalised
  Part records of the source data are upserted one after the other.
\<close>

definition ingest :: "(string \<times> string \<Rightarrow> nat) \<Rightarrow> part list \<Rightarrow> (upsert_key \<times> part) list \<Rightarrow> (upsert_key \<times> part) list" where
  "ingest hash source store = foldl (\<lambda>s p. upsert_part hash p s) store source"

text \<open>
  Modelled from the spec: the "total Part count" of the catalog store, missing from the
  sources.
\<close>

definition part_count :: "(upsert_key \<times> part) list \<Rightarrow> nat" where
  "part_count store = length store"

section \<open>Environments for the examples\<close>

text \<open>
  The theorems below hold for every \<^verbatim>\<open>JSON.parse\<close>, code renderer and date parser.
  Their examples run with these: a parser that knows a single text, the plainest code
  renderer, and a date parser that knows two time stamps.
\<close>

definition parse_as :: "string \<Rightarrow> jsval \<Rightarrow> string \<Rightarrow> js_error + jsval" where
  "parse_as text v s = (if s = text then Inr v else Inl (SyntaxError ''Unexpected token''))"

definition plain_code :: "string \<Rightarrow> jsval \<Rightarrow> string" where
  "plain_code code language = ''<pre><code>'' @ code @ ''</code></pre>''"

definition parse_two_dates :: "string \<Rightarrow> int option" where
  "parse_two_dates s =
     (if s = ''2025-01-01T00:00:00.000Z'' then Some 1735689600000
      else if s = ''2025-01-02T00:00:00.000Z'' then Some 1735776000000
      else None)"

section \<open>Basic facts\<close>

lemma and_then_Inl [simp]: "and_then (Inl e) f = Inl e"
  by (simp add: and_then_def)

lemma and_then_Inr [simp]: "and_then (Inr v) f = f v"
  by (simp add: and_then_def)

lemma and_then_eq_Inr:
  "and_then m f = Inr r \<longleftrightarrow> (\<exists>v. m = Inr v \<and> f v = Inr r)"
  by (cases m) simp_all

lemma get_prop_defined [simp]: "\<not> nullish v \<Longrightarrow> get_prop v k = Inr (read_prop v k)"
  by (simp add: get_prop_def)

lemma get_prop_nullish: "nullish v \<Longrightarrow> \<exists>e. get_prop v k = Inl e"
  by (simp add: get_prop_def)

lemma get_prop_obj [simp]: "get_prop (JObj kvs) k = Inr (lookup kvs k)"
  by (simp add: get_prop_def nullish_def)

lemma array_filter_total:
  "(\<And>x. x \<in> set xs \<Longrightarrow> p x = Inr (q x)) \<Longrightarrow> array_filter p xs = Inr (filter q xs)"
  by (induction xs) simp_all

lemma array_map_total:
  "(\<And>x. x \<in> set xs \<Longrightarrow> f x = Inr (g x)) \<Longrightarrow> array_map f xs = Inr (map g xs)"
  by (induction xs) simp_all

lemma array_filter_fails:
  "x \<in> set xs \<Longrightarrow> p x = Inl e \<Longrightarrow> \<exists>e'. array_filter p xs = Inl e'"
proof (induction xs)
  case Nil
  then show ?case by simp
next
  case (Cons y ys)
  show ?case
  proof (cases "p y")
    case (Inl e')
    then show ?thesis by simp
  next
    case keep: (Inr b)
    with Cons have "x \<in> set ys" by auto
    with Cons obtain e' where "array_filter p ys = Inl e'" by blast
    with keep show ?thesis by simp
  qed
qed

section \<open>The request sent by getAIMessage\<close>

lemma formattedHistory_defined:
  assumes "\<And>msg. msg \<in> set history \<Longrightarrow> \<not> nullish msg"
  shows "formattedHistory (JArr history) =
           Inr (map (\<lambda>msg. JObj [(''role'', read_prop msg ''role''), (''content'', read_prop msg ''content'')])
                  (filter (\<lambda>msg. \<not> truthy (read_prop msg ''isLoading'')) history))"
proof -
  let ?keep = "\<lambda>msg. and_then (get_prop msg ''isLoading'') (\<lambda>l. Inr (\<not> truthy l))"
  have kept: "array_filter ?keep history = Inr (filter (\<lambda>msg. \<not> truthy (read_prop msg ''isLoading'')) history)"
    by (rule array_filter_total) (simp add: assms)
  show ?thesis
    unfolding formattedHistory_def call_filter_def
    by (simp add: kept, rule array_map_total) (simp add: assms)
qed

lemma formattedHistory_throws:
  assumes "msg \<in> set history" "nullish msg"
  shows "\<exists>e. formattedHistory (JArr history) = Inl e"
proof -
  let ?keep = "\<lambda>msg. and_then (get_prop msg ''isLoading'') (\<lambda>l. Inr (\<not> truthy l))"
  from get_prop_nullish [OF assms(2)] obtain e where "get_prop msg ''isLoading'' = Inl e" ..
  then have "?keep msg = Inl e" by simp
  with assms(1) have "\<exists>e'. array_filter ?keep history = Inl e'"
    by (rule array_filter_fails [where p = ?keep])
  then obtain e' where "array_filter ?keep history = Inl e'" ..
  then show ?thesis by (simp add: formattedHistory_def call_filter_def)
qed

lemma getAIMessage_sent:
  "fst (getAIMessage fetch now userQuery conversationHistory) =
     (case formattedHistory (default_param conversationHistory (JArr [])) of
        Inl e \<Rightarrow> None
      | Inr formatted \<Rightarrow>
          Some (JObj [(''query'', userQuery), (''conversation_history'', JArr formatted)]))"
  by (simp add: getAIMessage_def getAIMessage_try_def Let_def split: sum.splits prod.splits)

text \<open>
  Claim C1. For every conversation history list passed to \<^verbatim>\<open>getAIMessage\<close>, the
  \<^verbatim>\<open>conversation_history\<close> of the request body holds no entry for a message whose
  \<^verbatim>\<open>isLoading\<close> is set, every other message appears reduced to exactly the fields
  \<^verbatim>\<open>role\<close> and \<^verbatim>\<open>content\<close>, and their relative order is kept. A request is
  sent unless an entry of the list is \<^verbatim>\<open>null\<close> or \<^verbatim>\<open>undefined\<close> (reading its
  \<^verbatim>\<open>isLoading\<close> throws before anything is sent).
\<close>

theorem getAIMessage_history:
  "case fst (getAIMessage fetch now userQuery (JArr history)) of
     None \<Rightarrow> \<exists>msg \<in> set history. nullish msg
   | Some body \<Rightarrow>
       (\<nexists>msg. msg \<in> set history \<and> nullish msg) \<and>
       body = JObj [(''query'', userQuery),
                    (''conversation_history'',
                     JArr (map (\<lambda>msg. JObj [(''role'', read_prop msg ''role''),
                                             (''content'', read_prop msg ''content'')])
                             (filter (\<lambda>msg. \<not> truthy (read_prop msg ''isLoading'')) history)))]"
proof (cases "\<exists>msg \<in> set history. nullish msg")
  case True
  then obtain msg where "msg \<in> set history" "nullish msg" by blast
  from formattedHistory_throws [OF this] obtain e where "formattedHistory (JArr history) = Inl e" ..
  with True show ?thesis by (simp add: getAIMessage_sent default_param_def)
next
  case False
  then have "\<And>msg. msg \<in> set history \<Longrightarrow> \<not> nullish msg" by blast
  from formattedHistory_defined [OF this] False show ?thesis
    by (simp add: getAIMessage_sent default_param_def)
qed

theorem getAIMessage_history_witness:
  "fst (getAIMessage (\<lambda>body. Rejected (TypeError ''Failed to fetch'')) ''2025-01-01T00:00:00.000Z''
          (JStr ''hi'')
          (JArr [JObj [(''role'', JStr ''user''), (''content'', JStr ''hi''), (''timestamp'', JStr ''t0'')],
                 JObj [(''role'', JStr ''assistant''), (''isLoading'', JBool True)]]))
   = Some (JObj [(''query'', JStr ''hi''),
                 (''conversation_history'',
                  JArr [JObj [(''role'', JStr ''user''), (''content'', JStr ''hi'')]])])"
  using getAIMessage_history
    [where fetch = "\<lambda>body. Rejected (TypeError ''Failed to fetch'')"
       and now = "''2025-01-01T00:00:00.000Z''" and userQuery = "JStr ''hi''"
       and history = "[JObj [(''role'', JStr ''user''), (''content'', JStr ''hi''), (''timestamp'', JStr ''t0'')],
          JObj [(''role'', JStr ''assistant''), (''isLoading'', JBool True)]]"]
  by (simp add: nullish_def split: option.splits)

section \<open>The reply of getAIMessage\<close>

lemma and_then_eq_Inl:
  "and_then m f = Inl e \<longleftrightarrow> m = Inl e \<or> (\<exists>v. m = Inr v \<and> f v = Inl e)"
  by (cases m) simp_all

lemma apology_nonempty [simp]: "apology msg \<noteq> []"
  by (simp add: apology_def)

lemma getAIMessage_cases:
  "getAIMessage fetch now userQuery conversationHistory = (sent, r) \<Longrightarrow>
   \<exists>content. r = Inr (JObj [(''role'', JStr ''assistant''), (''content'', content), (''timestamp'', JStr now)]) \<and>
     (case sent of
        None \<Rightarrow> \<exists>msg. content = JStr (apology msg)
      | Some body \<Rightarrow>
          (case fetch body of
             Rejected e \<Rightarrow> content = JStr (apology (message e))
           | Resolved response \<Rightarrow>
               if \<not> ok response then \<exists>msg. content = JStr (apology msg)
               else (case json_result response of
                       Inl e \<Rightarrow> content = JStr (apology (message e))
                     | Inr data \<Rightarrow>
                         if nullish data then \<exists>msg. content = JStr (apology msg)
                         else content = or_else (read_prop data ''response'')
                                          (JStr ''Sorry, I couldn't process your request.''))))"
  unfolding getAIMessage_def getAIMessage_try_def getAIMessage_catch_def Let_def
  by (auto simp: get_prop_def and_then_eq_Inr and_then_eq_Inl split: sum.splits fetch_outcome.splits prod.splits if_splits)

lemma getAIMessage_api_cases:
  "getAIMessage_api fetch userQuery = (sent, r) \<Longrightarrow>
   \<exists>content. r = Inr (JObj [(''role'', JStr ''assistant''), (''content'', content)]) \<and>
     sent = Some (JObj [(''query'', userQuery)]) \<and>
          (case fetch (JObj [(''query'', userQuery)]) of
             Rejected e \<Rightarrow> content = JStr (apology (message e))
           | Resolved response \<Rightarrow>
               if \<not> ok response then \<exists>msg. content = JStr (apology msg)
               else (case json_result response of
                       Inl e \<Rightarrow> content = JStr (apology (message e))
                     | Inr data \<Rightarrow>
                         if nullish data then \<exists>msg. content = JStr (apology msg)
                         else content = or_else (read_prop data ''response'')
                                          (JStr ''Sorry, I couldn't process your request.'')))"
  unfolding getAIMessage_api_def getAIMessage_api_try_def Let_def
  by (auto simp: get_prop_def and_then_eq_Inr and_then_eq_Inl split: sum.splits fetch_outcome.splits prod.splits if_splits)


lemma reply_content_kinds:
  assumes "case sent of
        None \<Rightarrow> \<exists>msg. content = JStr (apology msg)
      | Some body \<Rightarrow>
          (case fetch body of
             Rejected e \<Rightarrow> content = JStr (apology (message e))
           | Resolved response \<Rightarrow>
               if \<not> ok response then \<exists>msg. content = JStr (apology msg)
               else (case json_result response of
                       Inl e \<Rightarrow> content = JStr (apology (message e))
                     | Inr data \<Rightarrow>
                         if nullish data then \<exists>msg. content = JStr (apology msg)
                         else content = or_else (read_prop data ''response'')
                                          (JStr ''Sorry, I couldn't process your request.'')))"
  shows "truthy content"
    and "\<And>body response. sent = Some body \<Longrightarrow> fetch body = Resolved response \<Longrightarrow> \<not> ok response \<Longrightarrow>
           \<exists>msg. content = JStr (apology msg)"
    and "\<And>body response data. sent = Some body \<Longrightarrow> fetch body = Resolved response \<Longrightarrow> ok response \<Longrightarrow>
           json_result response = Inr data \<Longrightarrow> \<not> nullish data \<Longrightarrow> \<not> truthy (read_prop data ''response'') \<Longrightarrow>
           content = JStr ''Sorry, I couldn't process your request.''"
    and "(\<exists>text. content = JStr text) \<or>
         (\<exists>body response data. sent = Some body \<and> fetch body = Resolved response \<and> ok response \<and>
            json_result response = Inr data \<and> \<not> nullish data \<and>
            truthy (read_prop data ''response'') \<and> content = read_prop data ''response'')"
    and "\<And>body response data. sent = Some body \<Longrightarrow> fetch body = Resolved response \<Longrightarrow> ok response \<Longrightarrow>
           json_result response = Inr data \<Longrightarrow> \<not> nullish data \<Longrightarrow> truthy (read_prop data ''response'') \<Longrightarrow>
           content = read_prop data ''response''"
proof -
  show "\<And>body response data. sent = Some body \<Longrightarrow> fetch body = Resolved response \<Longrightarrow> ok response \<Longrightarrow>
           json_result response = Inr data \<Longrightarrow> \<not> nullish data \<Longrightarrow> truthy (read_prop data ''response'') \<Longrightarrow>
           content = read_prop data ''response''"
    using assms by (simp add: or_else_def)
  show "\<And>body response. sent = Some body \<Longrightarrow> fetch body = Resolved response \<Longrightarrow> \<not> ok response \<Longrightarrow>
           \<exists>msg. content = JStr (apology msg)"
    using assms by simp
  show "\<And>body response data. sent = Some body \<Longrightarrow> fetch body = Resolved response \<Longrightarrow> ok response \<Longrightarrow>
           json_result response = Inr data \<Longrightarrow> \<not> nullish data \<Longrightarrow> \<not> truthy (read_prop data ''response'') \<Longrightarrow>
           content = JStr ''Sorry, I couldn't process your request.''"
    using assms by (simp add: or_else_def)
  show "truthy content"
  proof (cases sent)
    case None
    with assms show ?thesis by auto
  next
    case (Some body)
    show ?thesis
    proof (cases "fetch body")
      case (Rejected e)
      with Some assms show ?thesis by simp
    next
      case (Resolved response)
      with Some assms show ?thesis
        by (cases "json_result response") (auto simp: or_else_def split: if_splits)
    qed
  qed
  show "(\<exists>text. content = JStr text) \<or>
         (\<exists>body response data. sent = Some body \<and> fetch body = Resolved response \<and> ok response \<and>
            json_result response = Inr data \<and> \<not> nullish data \<and>
            truthy (read_prop data ''response'') \<and> content = read_prop data ''response'')"
  proof (cases sent)
    case None
    with assms show ?thesis by auto
  next
    case (Some body)
    show ?thesis
    proof (cases "fetch body")
      case (Rejected e)
      with Some assms show ?thesis by simp
    next
      case (Resolved response)
      with Some assms show ?thesis
        by (cases "json_result response") (auto simp: or_else_def split: if_splits)
    qed
  qed
qed

text \<open>
  Claim C4, as the code has it. Whatever the input and whatever \<^verbatim>\<open>fetch\<close> does
  (rejection, a status outside 2xx, a body that is not JSON), \<^verbatim>\<open>getAIMessage\<close> returns
  a message and lets no exception out: an object with the role \<^verbatim>\<open>assistant\<close> and a
  truthy content. On a status outside 2xx the content is the local apology text. On a 2xx
  response whose JSON body is not \<^verbatim>\<open>null\<close> and has no truthy \<^verbatim>\<open>response\<close> field
  it is the fallback text. A truthy \<^verbatim>\<open>response\<close> field of such a body is returned
  as the content as it is, string or not; in every other case the content is a string.
  The same holds for the earlier \<^verbatim>\<open>getAIMessage\<close> of \<^verbatim>\<open>api.js\<close>.
\<close>

theorem getAIMessage_reply:
  \<open>(\<exists>content.
      snd (getAIMessage fetch now userQuery conversationHistory) =
        Inr (JObj [(''role'', JStr ''assistant''), (''content'', content), (''timestamp'', JStr now)]) \<and>
      truthy content \<and>
      (\<forall>body response.
         fst (getAIMessage fetch now userQuery conversationHistory) = Some body \<and>
         fetch body = Resolved response \<and> \<not> ok response \<longrightarrow>
         (\<exists>msg. content = JStr (apology msg))) \<and>
      (\<forall>body response data.
         fst (getAIMessage fetch now userQuery conversationHistory) = Some body \<and>
         fetch body = Resolved response \<and> ok response \<and> json_result response = Inr data \<and>
         \<not> nullish data \<and> \<not> truthy (read_prop data ''response'') \<longrightarrow>
         content = JStr ''Sorry, I couldn't process your request.'') \<and>
      (\<forall>body response data.
         fst (getAIMessage fetch now userQuery conversationHistory) = Some body \<and>
         fetch body = Resolved response \<and> ok response \<and> json_result response = Inr data \<and>
         \<not> nullish data \<and> truthy (read_prop data ''response'') \<longrightarrow>
         content = read_prop data ''response'') \<and>
      ((\<exists>text. content = JStr text) \<or>
       (\<exists>body response data.
          fst (getAIMessage fetch now userQuery conversationHistory) = Some body \<and>
          fetch body = Resolved response \<and> ok response \<and> json_result response = Inr data \<and>
          \<not> nullish data \<and> truthy (read_prop data ''response'') \<and>
          content = read_prop data ''response''))) \<and>
   (\<exists>content.
      snd (getAIMessage_api fetch userQuery) =
        Inr (JObj [(''role'', JStr ''assistant''), (''content'', content)]) \<and>
      truthy content \<and>
      (\<forall>body response.
         fst (getAIMessage_api fetch userQuery) = Some body \<and>
         fetch body = Resolved response \<and> \<not> ok response \<longrightarrow>
         (\<exists>msg. content = JStr (apology msg))) \<and>
      (\<forall>body response data.
         fst (getAIMessage_api fetch userQuery) = Some body \<and>
         fetch body = Resolved response \<and> ok response \<and> json_result response = Inr data \<and>
         \<not> nullish data \<and> \<not> truthy (read_prop data ''response'') \<longrightarrow>
         content = JStr ''Sorry, I couldn't process your request.'') \<and>
      (\<forall>body response data.
         fst (getAIMessage_api fetch userQuery) = Some body \<and>
         fetch body = Resolved response \<and> ok response \<and> json_result response = Inr data \<and>
         \<not> nullish data \<and> truthy (read_prop data ''response'') \<longrightarrow>
         content = read_prop data ''response'') \<and>
      ((\<exists>text. content = JStr text) \<or>
       (\<exists>body response data.
          fst (getAIMessage_api fetch userQuery) = Some body \<and>
          fetch body = Resolved response \<and> ok response \<and> json_result response = Inr data \<and>
          \<not> nullish data \<and> truthy (read_prop data ''response'') \<and>
          content = read_prop data ''response'')))\<close>
proof (rule conjI)
  obtain sent r where call: "getAIMessage fetch now userQuery conversationHistory = (sent, r)"
    by (cases "getAIMessage fetch now userQuery conversationHistory")
  from getAIMessage_cases [OF call] obtain content where
    r: "r = Inr (JObj [(''role'', JStr ''assistant''), (''content'', content), (''timestamp'', JStr now)])"
    and c: "case sent of
        None \<Rightarrow> \<exists>msg. content = JStr (apology msg)
      | Some body \<Rightarrow>
          (case fetch body of
             Rejected e \<Rightarrow> content = JStr (apology (message e))
           | Resolved response \<Rightarrow>
               if \<not> ok response then \<exists>msg. content = JStr (apology msg)
               else (case json_result response of
                       Inl e \<Rightarrow> content = JStr (apology (message e))
                     | Inr data \<Rightarrow>
                         if nullish data then \<exists>msg. content = JStr (apology msg)
                         else content = or_else (read_prop data ''response'')
                                          (JStr ''Sorry, I couldn't process your request.'')))"
    by blast
  note k = reply_content_kinds [OF c]
  show "\<exists>content.
      snd (getAIMessage fetch now userQuery conversationHistory) =
        Inr (JObj [(''role'', JStr ''assistant''), (''content'', content), (''timestamp'', JStr now)]) \<and>
      truthy content \<and>
      (\<forall>body response.
         fst (getAIMessage fetch now userQuery conversationHistory) = Some body \<and>
         fetch body = Resolved response \<and> \<not> ok response \<longrightarrow>
         (\<exists>msg. content = JStr (apology msg))) \<and>
      (\<forall>body response data.
         fst (getAIMessage fetch now userQuery conversationHistory) = Some body \<and>
         fetch body = Resolved response \<and> ok response \<and> json_result response = Inr data \<and>
         \<not> nullish data \<and> \<not> truthy (read_prop data ''response'') \<longrightarrow>
         content = JStr ''Sorry, I couldn't process your request.'') \<and>
      (\<forall>body response data.
         fst (getAIMessage fetch now userQuery conversationHistory) = Some body \<and>
         fetch body = Resolved response \<and> ok response \<and> json_result response = Inr data \<and>
         \<not> nullish data \<and> truthy (read_prop data ''response'') \<longrightarrow>
         content = read_prop data ''response'') \<and>
      ((\<exists>text. content = JStr text) \<or>
       (\<exists>body response data.
          fst (getAIMessage fetch now userQuery conversationHistory) = Some body \<and>
          fetch body = Resolved response \<and> ok response \<and> json_result response = Inr data \<and>
          \<not> nullish data \<and> truthy (read_prop data ''response'') \<and>
          content = read_prop data ''response''))"
    unfolding call fst_conv snd_conv r
    using k(1) k(2) k(3) k(4) k(5) by (intro exI [of _ content] conjI allI impI) (simp, blast+)
next
  obtain sent r where call: "getAIMessage_api fetch userQuery = (sent, r)"
    by (cases "getAIMessage_api fetch userQuery")
  from getAIMessage_api_cases [OF call] obtain content where
    r: "r = Inr (JObj [(''role'', JStr ''assistant''), (''content'', content)])"
    and s: "sent = Some (JObj [(''query'', userQuery)])"
    and c0: "case fetch (JObj [(''query'', userQuery)]) of
             Rejected e \<Rightarrow> content = JStr (apology (message e))
           | Resolved response \<Rightarrow>
               if \<not> ok response then \<exists>msg. content = JStr (apology msg)
               else (case json_result response of
                       Inl e \<Rightarrow> content = JStr (apology (message e))
                     | Inr data \<Rightarrow>
                         if nullish data then \<exists>msg. content = JStr (apology msg)
                         else content = or_else (read_prop data ''response'')
                                          (JStr ''Sorry, I couldn't process your request.''))"
    by blast
  from s c0 have c: "case sent of
        None \<Rightarrow> \<exists>msg. content = JStr (apology msg)
      | Some body \<Rightarrow>
          (case fetch body of
             Rejected e \<Rightarrow> content = JStr (apology (message e))
           | Resolved response \<Rightarrow>
               if \<not> ok response then \<exists>msg. content = JStr (apology msg)
               else (case json_result response of
                       Inl e \<Rightarrow> content = JStr (apology (message e))
                     | Inr data \<Rightarrow>
                         if nullish data then \<exists>msg. content = JStr (apology msg)
                         else content = or_else (read_prop data ''response'')
                                          (JStr ''Sorry, I couldn't process your request.'')))"
    by simp
  note k = reply_content_kinds [OF c]
  show "\<exists>content.
      snd (getAIMessage_api fetch userQuery) =
        Inr (JObj [(''role'', JStr ''assistant''), (''content'', content)]) \<and>
      truthy content \<and>
      (\<forall>body response.
         fst (getAIMessage_api fetch userQuery) = Some body \<and>
         fetch body = Resolved response \<and> \<not> ok response \<longrightarrow>
         (\<exists>msg. content = JStr (apology msg))) \<and>
      (\<forall>body response data.
         fst (getAIMessage_api fetch userQuery) = Some body \<and>
         fetch body = Resolved response \<and> ok response \<and> json_result response = Inr data \<and>
         \<not> nullish data \<and> \<not> truthy (read_prop data ''response'') \<longrightarrow>
         content = JStr ''Sorry, I couldn't process your request.'') \<and>
      (\<forall>body response data.
         fst (getAIMessage_api fetch userQuery) = Some body \<and>
         fetch body = Resolved response \<and> ok response \<and> json_result response = Inr data \<and>
         \<not> nullish data \<and> truthy (read_prop data ''response'') \<longrightarrow>
         content = read_prop data ''response'') \<and>
      ((\<exists>text. content = JStr text) \<or>
       (\<exists>body response data.
          fst (getAIMessage_api fetch userQuery) = Some body \<and>
          fetch body = Resolved response \<and> ok response \<and> json_result response = Inr data \<and>
          \<not> nullish data \<and> truthy (read_prop data ''response'') \<and>
          content = read_prop data ''response''))"
    unfolding call fst_conv snd_conv r
    using k(1) k(2) k(3) k(4) k(5) by (intro exI [of _ content] conjI allI impI) (simp, blast+)
qed


lemma getAIMessage_sent_empty:
  "fst (getAIMessage fetch now userQuery (JArr [])) =
     Some (JObj [(''query'', userQuery), (''conversation_history'', JArr [])])"
  by (simp add: getAIMessage_def getAIMessage_try_def formattedHistory_def call_filter_def
      default_param_def Let_def split: sum.splits prod.splits)

theorem getAIMessage_reply_witness:
  \<open>(\<exists>msg.
      snd (getAIMessage
             (\<lambda>body. Resolved \<lparr>status = 503, text_result = Inr ''Service Unavailable'',
                                json_result = Inl (SyntaxError ''Unexpected token S'')\<rparr>)
             ''2025-01-01T00:00:00.000Z'' (JStr ''hi'') (JArr [])) =
        Inr (JObj [(''role'', JStr ''assistant''), (''content'', JStr (apology msg)),
                   (''timestamp'', JStr ''2025-01-01T00:00:00.000Z'')])) \<and>
   snd (getAIMessage
          (\<lambda>body. Resolved \<lparr>status = 200, text_result = Inr ''{}'',
                             json_result = Inr (JObj [])\<rparr>)
          ''2025-01-01T00:00:00.000Z'' (JStr ''hi'') (JArr [])) =
     Inr (JObj [(''role'', JStr ''assistant''),
                (''content'', JStr ''Sorry, I couldn't process your request.''),
                (''timestamp'', JStr ''2025-01-01T00:00:00.000Z'')]) \<and>
   snd (getAIMessage
          (\<lambda>body. Resolved \<lparr>status = 200, text_result = Inr ''{"response": "Hello"}'',
                             json_result = Inr (JObj [(''response'', JStr ''Hello'')])\<rparr>)
          ''2025-01-01T00:00:00.000Z'' (JStr ''hi'') (JArr [])) =
     Inr (JObj [(''role'', JStr ''assistant''),
                (''content'', JStr ''Hello''),
                (''timestamp'', JStr ''2025-01-01T00:00:00.000Z'')])\<close>
proof (intro conjI)
  let ?down = "\<lambda>body::jsval. Resolved \<lparr>status = 503, text_result = Inr ''Service Unavailable'',
                                json_result = Inl (SyntaxError ''Unexpected token S'')\<rparr>"
  from getAIMessage_reply [where fetch = ?down and now = "''2025-01-01T00:00:00.000Z''"
      and userQuery = "JStr ''hi''" and conversationHistory = "JArr []"]
  show "\<exists>msg.
      snd (getAIMessage ?down ''2025-01-01T00:00:00.000Z'' (JStr ''hi'') (JArr [])) =
        Inr (JObj [(''role'', JStr ''assistant''), (''content'', JStr (apology msg)),
                   (''timestamp'', JStr ''2025-01-01T00:00:00.000Z'')])"
    by (simp add: getAIMessage_sent_empty ok_def) blast
next
  let ?empty = "\<lambda>body::jsval. Resolved \<lparr>status = 200, text_result = Inr ''{}'',
                             json_result = Inr (JObj [])\<rparr>"
  from getAIMessage_reply [where fetch = ?empty and now = "''2025-01-01T00:00:00.000Z''"
      and userQuery = "JStr ''hi''" and conversationHistory = "JArr []"]
  show "snd (getAIMessage ?empty ''2025-01-01T00:00:00.000Z'' (JStr ''hi'') (JArr [])) =
     Inr (JObj [(''role'', JStr ''assistant''),
                (''content'', JStr ''Sorry, I couldn't process your request.''),
                (''timestamp'', JStr ''2025-01-01T00:00:00.000Z'')])"
    by (simp add: getAIMessage_sent_empty nullish_def ok_def)
next
  let ?hello = \<open>\<lambda>body::jsval. Resolved \<lparr>status = 200, text_result = Inr ''{"response": "Hello"}'',
                             json_result = Inr (JObj [(''response'', JStr ''Hello'')])\<rparr>\<close>
  from getAIMessage_reply [where fetch = ?hello and now = "''2025-01-01T00:00:00.000Z''"
      and userQuery = "JStr ''hi''" and conversationHistory = "JArr []"]
  show "snd (getAIMessage ?hello ''2025-01-01T00:00:00.000Z'' (JStr ''hi'') (JArr [])) =
     Inr (JObj [(''role'', JStr ''assistant''),
                (''content'', JStr ''Hello''),
                (''timestamp'', JStr ''2025-01-01T00:00:00.000Z'')])"
    by (simp add: getAIMessage_sent_empty nullish_def ok_def)
qed

text \<open>
  The claim C4 asks for a non-empty string content after every fetch outcome. A 2xx
  response with the well-formed JSON body \<^verbatim>\<open>{"response": 42}\<close> yields a message
  whose content is the number 42.
\<close>

theorem getAIMessage_content_counterexample:
  \<open>snd (getAIMessage
          (\<lambda>body. Resolved \<lparr>status = 200, text_result = Inr ''{"response": 42}'',
                             json_result = Inr (JObj [(''response'', JNum 42)])\<rparr>)
          ''2025-01-01T00:00:00.000Z'' (JStr ''hi'') (JArr [])) =
     Inr (JObj [(''role'', JStr ''assistant''), (''content'', JNum 42),
                (''timestamp'', JStr ''2025-01-01T00:00:00.000Z'')]) \<and>
   (case read_prop (JObj [(''role'', JStr ''assistant''), (''content'', JNum 42),
                          (''timestamp'', JStr ''2025-01-01T00:00:00.000Z'')]) ''content'' of
      JStr text \<Rightarrow> False
    | _ \<Rightarrow> True)\<close>
  by (simp add: getAIMessage_def getAIMessage_try_def formattedHistory_def call_filter_def
      default_param_def or_else_def ok_def Let_def)

section \<open>Rendering fenced blocks\<close>

text \<open>
  Claim C3. For a fenced block tagged \<^verbatim>\<open>json-to-render\<close> or
  \<^verbatim>\<open>dictionary-list-to-render\<close> whose body is not parseable JSON, the renderer
  answers with the unmodified default rendering of the block (its literal text) and not
  with a product fragment. The exception of \<^verbatim>\<open>JSON.parse\<close> stays inside: the result
  is the HTML text of the default renderer.
\<close>

theorem renderer_code_unparseable:
  assumes "language = JStr ''json-to-render'' \<or> language = JStr ''dictionary-list-to-render''"
    and "JSON_parse code = Inl e"
  shows "renderer_code JSON_parse originalCodeRenderer code language =
           originalCodeRenderer code language"
  using assms by (auto simp: renderer_code_def)

theorem renderer_code_unparseable_witness:
  \<open>renderer_code (parse_as ''[]'' (JArr [])) plain_code ''{"name": '' (JStr ''json-to-render'') =
     ''<pre><code>{"name": </code></pre>''\<close>
  using renderer_code_unparseable
    [where language = "JStr ''json-to-render''" and JSON_parse = "parse_as ''[]'' (JArr [])"
       and code = \<open>''{"name": ''\<close> and originalCodeRenderer = plain_code
       and e = "SyntaxError ''Unexpected token''"]
  by (simp add: parse_as_def plain_code_def)

text \<open>
  Claim C2, as the code has it. For a fenced block tagged \<^verbatim>\<open>json-to-render\<close> or
  \<^verbatim>\<open>dictionary-list-to-render\<close> whose body parses as JSON, the parsed payload
  selects the rendering, and the tag does not: an array is rendered as a product list, any
  other value as a single product card, under either tag (and as literal text when that
  rendering throws, as it does for \<^verbatim>\<open>null\<close>).
\<close>

theorem renderer_code_by_payload:
  assumes "tag = ''json-to-render'' \<or> tag = ''dictionary-list-to-render''"
    and "JSON_parse code = Inr jsonData"
  shows "renderer_code JSON_parse originalCodeRenderer code (JStr tag) =
           (case jsonData of
              JArr products \<Rightarrow>
                (case renderProductList products of
                   Inr html \<Rightarrow> html
                 | Inl e \<Rightarrow> originalCodeRenderer code (JStr tag))
            | _ \<Rightarrow>
                (case renderProductCard jsonData of
                   Inr html \<Rightarrow> html
                 | Inl e \<Rightarrow> originalCodeRenderer code (JStr tag)))"
  using assms by (auto simp: renderer_code_def split: jsval.splits)

lemma renderProductCard_empty_object:
  \<open>renderProductCard (JObj []) =
     Inr ''\<newline>      <div class="product-card">\<newline>        <div class="product-header">\<newline>          <h3>Product</h3>\<newline>          <span class="product-price"></span>\<newline>        </div>\<newline>        \<newline>        <div class="product-details">\<newline>          \<newline>          \<newline>          \<newline>          \<newline>        </div>\<newline>      </div>\<newline>    ''\<close>
  by (simp add: renderProductCard_def interpolate_def or_else_m_def when_truthy_def)

lemma renderProductCard_array:
  \<open>renderProductCard (JArr []) = renderProductCard (JObj [])\<close>
  by (simp add: renderProductCard_def interpolate_def or_else_m_def when_truthy_def get_prop_def nullish_def)

theorem renderer_code_by_payload_witness:
  \<open>renderer_code (parse_as ''{}'' (JObj [])) plain_code ''{}'' (JStr ''dictionary-list-to-render'') =
     ''\<newline>      <div class="product-card">\<newline>        <div class="product-header">\<newline>          <h3>Product</h3>\<newline>          <span class="product-price"></span>\<newline>        </div>\<newline>        \<newline>        <div class="product-details">\<newline>          \<newline>          \<newline>          \<newline>          \<newline>        </div>\<newline>      </div>\<newline>    ''\<close>
  using renderer_code_by_payload
    [where tag = "''dictionary-list-to-render''" and JSON_parse = "parse_as ''{}'' (JObj [])"
       and code = "''{}''" and originalCodeRenderer = plain_code and jsonData = "JObj []"]
  by (simp add: parse_as_def renderProductCard_empty_object)

text \<open>
  The claim C2 lets the tag alone decide. A block tagged \<^verbatim>\<open>json-to-render\<close> with
  the body \<^verbatim>\<open>[]\<close> is rendered as a product list, not as a card, and a block tagged
  \<^verbatim>\<open>dictionary-list-to-render\<close> with the body \<^verbatim>\<open>{}\<close> is rendered as a
  single product card.
\<close>

theorem renderer_code_tag_counterexample:
  \<open>Inr (renderer_code (parse_as ''[]'' (JArr [])) plain_code ''[]'' (JStr ''json-to-render'')) =
     renderProductList [] \<and>
   Inr (renderer_code (parse_as ''[]'' (JArr [])) plain_code ''[]'' (JStr ''json-to-render'')) \<noteq>
     renderProductCard (JArr []) \<and>
   Inr (renderer_code (parse_as ''{}'' (JObj [])) plain_code ''{}'' (JStr ''dictionary-list-to-render'')) =
     renderProductCard (JObj [])\<close>
  by (simp add: renderer_code_def parse_as_def renderProductList_def renderProductCard_array
      renderProductCard_empty_object)

text \<open>
  Claim C5, as the code has it. Rendering a \<^verbatim>\<open>dictionary-list-to-render\<close> block
  whose payload is the empty array yields the fixed text
  \<^verbatim>\<open><p>No products found</p>\<close>: a "not found" sentence, and no empty product list.
\<close>

theorem renderer_code_empty_list:
  assumes "JSON_parse code = Inr (JArr [])"
  shows \<open>renderer_code JSON_parse originalCodeRenderer code (JStr ''dictionary-list-to-render'') =
           ''<p>No products found</p>''\<close>
  using assms by (simp add: renderer_code_def renderProductList_def)

theorem renderer_code_empty_list_witness:
  \<open>renderer_code (parse_as ''[]'' (JArr [])) plain_code ''[]'' (JStr ''dictionary-list-to-render'') =
     ''<p>No products found</p>''\<close>
  using renderer_code_empty_list
    [where JSON_parse = "parse_as ''[]'' (JArr [])" and code = "''[]''" and originalCodeRenderer = plain_code]
  by (simp add: parse_as_def)

text \<open>
  The claim C5 names the sentence "no replacement parts found"; the text the code returns
  for an empty list is another one.
\<close>

theorem renderProductList_empty_counterexample:
  \<open>renderProductList [] = Inr ''<p>No products found</p>'' \<and>
   renderProductList [] \<noteq> Inr ''no replacement parts found''\<close>
  by (simp add: renderProductList_def)

section \<open>Sending a message\<close>

lemma trim_blank:
  assumes "\<And>c. c \<in> set s \<Longrightarrow> js_whitespace c"
  shows "trim s = []"
proof -
  from assms have blank: "dropWhile js_whitespace s = []" by (simp add: dropWhile_eq_Nil_conv)
  show ?thesis unfolding trim_def blank by simp
qed

text \<open>
  Claim C9. When the input is empty or holds whitespace only, submitting the form does
  nothing: \<^verbatim>\<open>handleSend\<close> returns with the state as it was, the message list
  included, and posts no request. The send button is disabled for such an input.
\<close>

theorem handleSend_blank:
  assumes "\<forall>c \<in> set (input st). js_whitespace c"
  shows "handleSend fetch now_send now_reply between st = Inr (st, None) \<and>
         send_button_disabled st"
proof -
  from assms have "trim (input st) = []" by (simp add: trim_blank)
  then show ?thesis by (simp add: handleSend_def send_button_disabled_def)
qed

theorem handleSend_blank_witness:
  "handleSend (\<lambda>body. Rejected (TypeError ''Failed to fetch'')) ''2025-01-01T00:00:00.000Z''
     ''2025-01-01T00:00:01.000Z'' (\<lambda>s. s)
     \<lparr>messages = JArr [JObj [(''role'', JStr ''assistant''), (''content'', JStr ''Hi'')]],
      input = ''   '', isLoading = False, chatHistory = JArr [], currentSessionId = JNull,
      showHistory = False\<rparr> =
   Inr (\<lparr>messages = JArr [JObj [(''role'', JStr ''assistant''), (''content'', JStr ''Hi'')]],
         input = ''   '', isLoading = False, chatHistory = JArr [], currentSessionId = JNull,
         showHistory = False\<rparr>, None)"
  using handleSend_blank
    [where st = "\<lparr>messages = JArr [JObj [(''role'', JStr ''assistant''), (''content'', JStr ''Hi'')]],
      input = ''   '', isLoading = False, chatHistory = JArr [], currentSessionId = JNull,
      showHistory = False\<rparr>"
      and fetch = "\<lambda>body. Rejected (TypeError ''Failed to fetch'')"
      and now_send = "''2025-01-01T00:00:00.000Z''" and now_reply = "''2025-01-01T00:00:01.000Z''"
      and between = "\<lambda>s. s"]
  by (simp add: js_whitespace_def)

lemma without_loading_plus_defined:
  assumes "\<And>msg. msg \<in> set prev \<Longrightarrow> \<not> nullish msg"
  shows "without_loading_plus newMessage (JArr prev) =
           Inr (JArr (filter (\<lambda>msg. \<not> truthy (read_prop msg ''isLoading'')) prev @ [newMessage]))"
proof -
  let ?keep = "\<lambda>msg. and_then (get_prop msg ''isLoading'') (\<lambda>l. Inr (\<not> truthy l))"
  have "array_filter ?keep prev = Inr (filter (\<lambda>msg. \<not> truthy (read_prop msg ''isLoading'')) prev)"
    by (rule array_filter_total) (simp add: assms)
  then show ?thesis by (simp add: without_loading_plus_def call_filter_def)
qed

text \<open>
  Claim C7, as the code has it. Within one turn in which no other event changes the
  message list while the request is pending, the list is only appended to: every message
  present when \<^verbatim>\<open>handleSend\<close> starts whose \<^verbatim>\<open>isLoading\<close> is not set is still
  there after the reply was added, unchanged and in the same relative order, and what is
  new (the user message, then the reply or error message) stands at the end. The
  messages are those of a list without \<^verbatim>\<open>null\<close> entries.
\<close>

theorem handleSend_appends:
  assumes "messages st = JArr previous"
    and "\<forall>msg \<in> set previous. \<not> nullish msg"
    and "trim (input st) \<noteq> []"
    and "\<forall>s. messages (between s) = messages s"
  shows "\<exists>st' sent reply.
           handleSend fetch now_send now_reply between st = Inr (st', sent) \<and>
           messages st' =
             JArr (filter (\<lambda>msg. \<not> truthy (read_prop msg ''isLoading'')) previous @
                   [JObj [(''role'', JStr ''user''), (''content'', JStr (input st)),
                          (''timestamp'', JStr now_send)],
                    reply]) \<and>
           read_prop reply ''role'' = JStr ''assistant'' \<and>
           \<not> truthy (read_prop reply ''isLoading'')"
proof -
  let ?user = "JObj [(''role'', JStr ''user''), (''content'', JStr (input st)), (''timestamp'', JStr now_send)]"
  let ?loading = "JObj [(''role'', JStr ''assistant''), (''isLoading'', JBool True)]"
  let ?call = "getAIMessage fetch now_reply (JStr (input st)) (JArr (previous @ [?user]))"
  let ?pending = "st\<lparr>input := [], isLoading := True, messages := JArr (previous @ [?user, ?loading])\<rparr>"
  obtain sent r where call: "?call = (sent, r)" by (cases ?call)
  from getAIMessage_cases [OF call] obtain content where
    r: "r = Inr (JObj [(''role'', JStr ''assistant''), (''content'', content), (''timestamp'', JStr now_reply)])"
    by blast
  let ?reply = "JObj [(''role'', JStr ''assistant''), (''content'', content), (''timestamp'', JStr now_reply)]"
  let ?kept = "filter (\<lambda>msg. \<not> truthy (read_prop msg ''isLoading'')) previous @ [?user, ?reply]"
  have defined: "\<And>msg. msg \<in> set (previous @ [?user, ?loading]) \<Longrightarrow> \<not> nullish msg"
    using assms(2) by (auto simp: nullish_def)
  from assms(4) have same: "messages (between ?pending) = JArr (previous @ [?user, ?loading])"
    by simp
  have upd: "without_loading_plus ?reply (messages (between ?pending)) = Inr (JArr ?kept)"
    unfolding same
    using without_loading_plus_defined [OF defined, of "previous @ [?user, ?loading]" ?reply]
    by simp
  have "handleSend fetch now_send now_reply between st =
          Inr ((between ?pending)\<lparr>messages := JArr ?kept, isLoading := False\<rparr>, sent)"
    using assms(1,3) call r upd by (simp add: handleSend_def array_spread_def Let_def)
  then show ?thesis
    by (intro exI [of _ "(between ?pending)\<lparr>messages := JArr ?kept, isLoading := False\<rparr>"]
        exI [of _ sent] exI [of _ ?reply]) simp
qed

theorem handleSend_appends_witness:
  "\<exists>st' sent reply.
     handleSend (\<lambda>body. Rejected (TypeError ''Failed to fetch'')) ''2025-01-01T00:00:00.000Z''
       ''2025-01-01T00:00:01.000Z'' (\<lambda>s. s\<lparr>showHistory := True\<rparr>)
       \<lparr>messages = JArr [JObj [(''role'', JStr ''assistant''), (''content'', JStr ''Hi'')],
                         JObj [(''role'', JStr ''assistant''), (''isLoading'', JBool True)]],
        input = ''door seal'', isLoading = False, chatHistory = JArr [], currentSessionId = JNull,
        showHistory = False\<rparr> = Inr (st', sent) \<and>
     messages st' =
       JArr [JObj [(''role'', JStr ''assistant''), (''content'', JStr ''Hi'')],
             JObj [(''role'', JStr ''user''), (''content'', JStr ''door seal''),
                   (''timestamp'', JStr ''2025-01-01T00:00:00.000Z'')],
             reply] \<and>
     read_prop reply ''role'' = JStr ''assistant''"
  using handleSend_appends
    [where st = "\<lparr>messages = JArr [JObj [(''role'', JStr ''assistant''), (''content'', JStr ''Hi'')],
                         JObj [(''role'', JStr ''assistant''), (''isLoading'', JBool True)]],
        input = ''door seal'', isLoading = False, chatHistory = JArr [], currentSessionId = JNull,
        showHistory = False\<rparr>"
      and previous = "[JObj [(''role'', JStr ''assistant''), (''content'', JStr ''Hi'')],
                         JObj [(''role'', JStr ''assistant''), (''isLoading'', JBool True)]]"
      and fetch = "\<lambda>body. Rejected (TypeError ''Failed to fetch'')"
      and now_send = "''2025-01-01T00:00:00.000Z''" and now_reply = "''2025-01-01T00:00:01.000Z''"
      and between = "\<lambda>s. s\<lparr>showHistory := True\<rparr>"]
  by (simp add: nullish_def trim_def js_whitespace_def) blast

text \<open>
  The claim C7 promises this of every turn. When the user starts a new chat while the
  request is pending, \<^verbatim>\<open>startNewChat\<close> replaces the message list by the welcome
  list, the updater appends the reply to that, and the messages that were there when
  \<^verbatim>\<open>handleSend\<close> started are gone, the user's question included.
\<close>

theorem handleSend_new_chat_counterexample:
  \<open>(case handleSend (\<lambda>body. Rejected (TypeError ''Failed to fetch''))
           ''2025-01-01T00:00:00.000Z'' ''2025-01-01T00:00:02.000Z''
           (\<lambda>s. case startNewChat ''m5gq2x1k'' ''2025-01-01T00:00:01.000Z''
                        ''2025-01-01T00:00:00.000Z'' s
                        \<lparr>chat_history_entry = Missing, current_session_entry = None\<rparr> of
                   Inr (s', ls') \<Rightarrow> s'
                 | Inl e \<Rightarrow> s)
           \<lparr>messages = JArr [JObj [(''role'', JStr ''user''), (''content'', JStr ''which pump?'')],
                             JObj [(''role'', JStr ''assistant''), (''content'', JStr ''WPW10348269'')]],
            input = ''door seal'', isLoading = False, chatHistory = JArr [],
            currentSessionId = JStr ''m5gq1aaa'', showHistory = False\<rparr> of
      Inr (st', sent) \<Rightarrow>
        messages st' =
          JArr [JObj [(''role'', JStr ''assistant''),
                      (''content'',
                       JStr ''Hi, I'm your appliance parts and repair assistant. How can I help you today?''),
                      (''timestamp'', JStr ''2025-01-01T00:00:00.000Z'')],
                JObj [(''role'', JStr ''assistant''),
                      (''content'', JStr (apology ''Failed to fetch'')),
                      (''timestamp'', JStr ''2025-01-01T00:00:02.000Z'')]]
    | Inl e \<Rightarrow> False)\<close>
  by (simp add: handleSend_def array_spread_def trim_def js_whitespace_def Let_def
      getAIMessage_def getAIMessage_try_def getAIMessage_catch_def formattedHistory_def
      call_filter_def default_param_def startNewChat_def defaultMessage_def
      without_loading_plus_def)

section \<open>Deleting a stored session\<close>

lemma filter_by_id:
  assumes "\<And>s. s \<in> set sessions \<Longrightarrow> \<not> nullish s"
  shows "call_filter
           (\<lambda>session. and_then (get_prop session ''id'') (\<lambda>sid. Inr (\<not> strict_eq sid sessionId)))
           (JArr sessions) =
         Inr (filter (\<lambda>s. \<not> strict_eq (read_prop s ''id'') sessionId) sessions)"
  unfolding call_filter_def
  by (simp, rule array_filter_total) (simp add: assms)

lemma deleteSession_defined:
  assumes "chatHistory st = JArr sessions"
    and "\<And>s. s \<in> set sessions \<Longrightarrow> \<not> nullish s"
  shows "\<exists>st' ls' scheduled.
           deleteSession st ls sessionId = Inr (st', ls', scheduled) \<and>
           chatHistory st' = JArr (filter (\<lambda>s. \<not> strict_eq (read_prop s ''id'') sessionId) sessions) \<and>
           chat_history_entry ls' =
             Parsed (JArr (filter (\<lambda>s. \<not> strict_eq (read_prop s ''id'') sessionId) sessions))"
proof -
  let ?kept = "filter (\<lambda>s. \<not> strict_eq (read_prop s ''id'') sessionId) sessions"
  have first: "?kept \<noteq> [] \<Longrightarrow> \<not> nullish (?kept ! 0)"
  proof -
    assume "?kept \<noteq> []"
    then have "?kept ! 0 \<in> set ?kept" by (simp del: set_filter)
    moreover have "set ?kept \<subseteq> set sessions" by (rule filter_is_subset)
    ultimately have "?kept ! 0 \<in> set sessions" by (rule subsetD [rotated])
    then show ?thesis by (rule assms(2))
  qed
  have kept: "call_filter
           (\<lambda>session. and_then (get_prop session ''id'') (\<lambda>sid. Inr (\<not> strict_eq sid sessionId)))
           (chatHistory st) = Inr ?kept"
    unfolding assms(1) by (rule filter_by_id) (rule assms(2))
  show ?thesis
    using first by (auto simp: deleteSession_def kept Let_def)
qed

text \<open>
  Claim C10. Deleting a chat session by id removes exactly the stored sessions whose
  \<^verbatim>\<open>id\<close> is strictly equal to the given one and leaves every other stored session
  as it was, in the original relative order; deleting an id that no stored session has
  leaves the stored list unchanged. This holds for \<^verbatim>\<open>deleteChatSession\<close> on the
  stored list and for \<^verbatim>\<open>deleteSession\<close> of the chat window, on its session list and
  on what it writes to the storage. The stored sessions are the entries of an array
  without \<^verbatim>\<open>null\<close>.
\<close>

theorem deleteChatSession_filters:
  assumes "\<forall>s \<in> set sessions. \<not> nullish s"
  shows "deleteChatSession (Parsed (JArr sessions)) sessionId =
           (Parsed (JArr (filter (\<lambda>s. \<not> strict_eq (read_prop s ''id'') sessionId) sessions)), True) \<and>
         ((\<forall>s \<in> set sessions. \<not> strict_eq (read_prop s ''id'') sessionId) \<longrightarrow>
            deleteChatSession (Parsed (JArr sessions)) sessionId = (Parsed (JArr sessions), True)) \<and>
         (chatHistory st = JArr sessions \<longrightarrow>
            (\<exists>st' ls' scheduled.
               deleteSession st ls sessionId = Inr (st', ls', scheduled) \<and>
               chatHistory st' =
                 JArr (filter (\<lambda>s. \<not> strict_eq (read_prop s ''id'') sessionId) sessions) \<and>
               chat_history_entry ls' =
                 Parsed (JArr (filter (\<lambda>s. \<not> strict_eq (read_prop s ''id'') sessionId) sessions))))"
proof (intro conjI impI)
  from assms have defined: "\<And>s. s \<in> set sessions \<Longrightarrow> \<not> nullish s" by blast
  show del: "deleteChatSession (Parsed (JArr sessions)) sessionId =
           (Parsed (JArr (filter (\<lambda>s. \<not> strict_eq (read_prop s ''id'') sessionId) sessions)), True)"
    by (simp add: deleteChatSession_def getAllChatHistories_def filter_by_id [OF defined])
  show "deleteChatSession (Parsed (JArr sessions)) sessionId = (Parsed (JArr sessions), True)"
    if "\<forall>s \<in> set sessions. \<not> strict_eq (read_prop s ''id'') sessionId"
  proof -
    from that have "filter (\<lambda>s. \<not> strict_eq (read_prop s ''id'') sessionId) sessions = sessions"
      by (simp add: filter_id_conv)
    with del show ?thesis by simp
  qed
  show "\<exists>st' ls' scheduled.
               deleteSession st ls sessionId = Inr (st', ls', scheduled) \<and>
               chatHistory st' =
                 JArr (filter (\<lambda>s. \<not> strict_eq (read_prop s ''id'') sessionId) sessions) \<and>
               chat_history_entry ls' =
                 Parsed (JArr (filter (\<lambda>s. \<not> strict_eq (read_prop s ''id'') sessionId) sessions))"
    if "chatHistory st = JArr sessions"
    using deleteSession_defined [OF that defined] .
qed

theorem deleteChatSession_filters_witness:
  "deleteChatSession
     (Parsed (JArr [JObj [(''id'', JStr ''a''), (''title'', JStr ''Seal'')],
                    JObj [(''id'', JStr ''b''), (''title'', JStr ''Pump'')],
                    JObj [(''id'', JStr ''c''), (''title'', JStr ''Rack'')]]))
     (JStr ''b'') =
   (Parsed (JArr [JObj [(''id'', JStr ''a''), (''title'', JStr ''Seal'')],
                  JObj [(''id'', JStr ''c''), (''title'', JStr ''Rack'')]]), True) \<and>
   deleteChatSession
     (Parsed (JArr [JObj [(''id'', JStr ''a''), (''title'', JStr ''Seal'')],
                    JObj [(''id'', JStr ''b''), (''title'', JStr ''Pump'')],
                    JObj [(''id'', JStr ''c''), (''title'', JStr ''Rack'')]]))
     (JStr ''d'') =
   (Parsed (JArr [JObj [(''id'', JStr ''a''), (''title'', JStr ''Seal'')],
                  JObj [(''id'', JStr ''b''), (''title'', JStr ''Pump'')],
                  JObj [(''id'', JStr ''c''), (''title'', JStr ''Rack'')]]), True) \<and>
   (\<exists>st' ls' scheduled.
      deleteSession
        \<lparr>messages = JArr [], input = [], isLoading = False,
         chatHistory = JArr [JObj [(''id'', JStr ''a''), (''title'', JStr ''Seal'')],
                             JObj [(''id'', JStr ''b''), (''title'', JStr ''Pump'')],
                             JObj [(''id'', JStr ''c''), (''title'', JStr ''Rack'')]],
         currentSessionId = JStr ''a'', showHistory = True\<rparr>
        \<lparr>chat_history_entry = Missing, current_session_entry = None\<rparr>
        (JStr ''b'') = Inr (st', ls', scheduled) \<and>
      chatHistory st' = JArr [JObj [(''id'', JStr ''a''), (''title'', JStr ''Seal'')],
                              JObj [(''id'', JStr ''c''), (''title'', JStr ''Rack'')]] \<and>
      chat_history_entry ls' =
        Parsed (JArr [JObj [(''id'', JStr ''a''), (''title'', JStr ''Seal'')],
                      JObj [(''id'', JStr ''c''), (''title'', JStr ''Rack'')]]))"
  using deleteChatSession_filters
     [where sessions = "[JObj [(''id'', JStr ''a''), (''title'', JStr ''Seal'')],
                    JObj [(''id'', JStr ''b''), (''title'', JStr ''Pump'')],
                    JObj [(''id'', JStr ''c''), (''title'', JStr ''Rack'')]]" and sessionId = "JStr ''b''"
        and st = "\<lparr>messages = JArr [], input = [], isLoading = False,
         chatHistory = JArr [JObj [(''id'', JStr ''a''), (''title'', JStr ''Seal'')],
                             JObj [(''id'', JStr ''b''), (''title'', JStr ''Pump'')],
                             JObj [(''id'', JStr ''c''), (''title'', JStr ''Rack'')]],
         currentSessionId = JStr ''a'', showHistory = True\<rparr>"
        and ls = "\<lparr>chat_history_entry = Missing, current_session_entry = None\<rparr>"]
    deleteChatSession_filters
     [where sessions = "[JObj [(''id'', JStr ''a''), (''title'', JStr ''Seal'')],
                    JObj [(''id'', JStr ''b''), (''title'', JStr ''Pump'')],
                    JObj [(''id'', JStr ''c''), (''title'', JStr ''Rack'')]]" and sessionId = "JStr ''d''"]
  by (simp add: nullish_def strict_eq_def)

section \<open>Saving a session\<close>

lemma lookup_set_prop_same [simp]: "lookup (set_prop kvs k v) k = v"
  by (induction kvs) auto

lemma updated_session_lastUpdated [simp]:
  "read_prop (updated_session existing chatSession now) ''lastUpdated'' = JStr now"
  by (simp add: updated_session_def)

lemma added_session_lastUpdated [simp]:
  "read_prop (added_session chatSession now) ''lastUpdated'' = JStr now"
  by (simp add: added_session_def)

lemma insert_sorted_mset:
  "insert_sorted cmp x ys = Inr r \<Longrightarrow> mset r = add_mset x (mset ys)"
proof (induction ys arbitrary: r)
  case Nil
  then show ?case by auto
next
  case (Cons y ys)
  from Cons.prems obtain c where c: "cmp x y = Inr c"
    by (auto simp: and_then_eq_Inr)
  show ?case
  proof (cases "case c of Some d \<Rightarrow> 0 < d | None \<Rightarrow> False")
    case True
    with Cons.prems c obtain r' where "insert_sorted cmp x ys = Inr r'" "r = y # r'"
      by (auto simp: and_then_eq_Inr)
    with Cons.IH [of r'] show ?thesis by simp
  next
    case False
    with Cons.prems c show ?thesis by auto
  qed
qed

lemma sort_defined_mset:
  "sort_defined cmp xs = Inr r \<Longrightarrow> mset r = mset xs"
proof (induction xs arbitrary: r)
  case Nil
  then show ?case by simp
next
  case (Cons x xs)
  from Cons.prems obtain s where "sort_defined cmp xs = Inr s" "insert_sorted cmp x s = Inr r"
    by (auto simp: and_then_eq_Inr)
  with Cons.IH [of s] insert_sorted_mset [of cmp x s r] show ?case by simp
qed

lemma array_sort_mset:
  assumes "array_sort cmp xs = Inr r"
  shows "mset r = mset xs"
proof -
  from assms obtain s where s: "sort_defined cmp (filter (\<lambda>x. x \<noteq> JUndefined) xs) = Inr s"
    and r: "r = s @ filter (\<lambda>x. x = JUndefined) xs"
    by (auto simp: array_sort_def and_then_eq_Inr)
  from sort_defined_mset [OF s] r
  have "mset r = mset (filter (\<lambda>x. x \<noteq> JUndefined) xs) + mset (filter (\<lambda>x. x = JUndefined) xs)"
    by simp
  also have "\<dots> = mset xs"
    by (induction xs) simp_all
  finally show ?thesis .
qed

lemma array_findIndex_total:
  assumes "\<And>x. x \<in> set xs \<Longrightarrow> p x = Inr (q x)"
  shows "array_findIndex p xs =
           Inr (if \<exists>x \<in> set xs. q x then Some (length (takeWhile (\<lambda>x. \<not> q x) xs)) else None)"
  using assms by (induction xs) auto


lemma compare_lastUpdated_valid:
  assumes "\<not> nullish a" "\<not> nullish b" "time_of P a = Some ta" "time_of P b = Some tb"
  shows "compare_lastUpdated P a b = Inr (Some (tb - ta))"
proof -
  from assms(3) have a: "new_Date P (read_prop a ''lastUpdated'') = Inr (Some ta)"
    by (auto simp: time_of_def split: sum.splits option.splits)
  from assms(4) have b: "new_Date P (read_prop b ''lastUpdated'') = Inr (Some tb)"
    by (auto simp: time_of_def split: sum.splits option.splits)
  from assms(1,2) a b show ?thesis by (simp add: compare_lastUpdated_def)
qed

lemma insert_sorted_recent:
  assumes "\<not> nullish x" "time_of P x = Some tx"
    and "\<And>y. y \<in> set ys \<Longrightarrow> \<not> nullish y \<and> time_of P y \<noteq> None"
    and "most_recent_first P ys"
  shows "\<exists>r. insert_sorted (compare_lastUpdated P) x ys = Inr r \<and> most_recent_first P r \<and>
           set r = insert x (set ys)"
  using assms(3,4)
proof (induction ys)
  case Nil
  then show ?case by (simp add: most_recent_first_def)
next
  case (Cons y ys)
  from Cons.prems(1) [of y] obtain ty where y: "\<not> nullish y" "time_of P y = Some ty" by auto
  have cmp: "compare_lastUpdated P x y = Inr (Some (ty - tx))"
    by (rule compare_lastUpdated_valid) (use assms(1,2) y in simp_all)
  from Cons.prems(2) have tail: "most_recent_first P ys"
    and head: "\<And>z. z \<in> set ys \<Longrightarrow> (case time_of P z of None \<Rightarrow> False | Some tz \<Rightarrow> tz \<le> ty)"
    using y(2) by (auto simp: most_recent_first_def)
  show ?case
  proof (cases "0 < ty - tx")
    case True
    from Cons.IH [OF _ tail] Cons.prems(1) obtain r where
      r: "insert_sorted (compare_lastUpdated P) x ys = Inr r" "most_recent_first P r"
         "set r = insert x (set ys)"
      by auto
    have "most_recent_first P (y # r)"
      using r(2,3) head y(2) assms(2) True
      by (auto simp: most_recent_first_def)
    with r cmp True show ?thesis by auto
  next
    case False
    have "case (time_of P x, time_of P z) of (Some ta, Some tb) \<Rightarrow> tb \<le> ta | _ \<Rightarrow> False"
      if "z \<in> set (y # ys)" for z
    proof (cases "z = y")
      case True
      with y(2) assms(2) False show ?thesis by simp
    next
      case other: False
      with that have "z \<in> set ys" by simp
      from head [OF this] obtain tz where "time_of P z = Some tz" "tz \<le> ty"
        by (cases "time_of P z") auto
      with assms(2) False show ?thesis by simp
    qed
    with Cons.prems(2) have "most_recent_first P (x # y # ys)"
      unfolding most_recent_first_def by (simp only: sorted_wrt.simps) blast
    with cmp False show ?thesis by auto
  qed
qed

lemma sort_defined_recent:
  assumes "\<And>x. x \<in> set xs \<Longrightarrow> \<not> nullish x \<and> time_of P x \<noteq> None"
  shows "\<exists>r. sort_defined (compare_lastUpdated P) xs = Inr r \<and> most_recent_first P r \<and>
           set r = set xs"
  using assms
proof (induction xs)
  case Nil
  then show ?case by (simp add: most_recent_first_def)
next
  case (Cons x xs)
  from Cons.IH Cons.prems obtain s where
    s: "sort_defined (compare_lastUpdated P) xs = Inr s" "most_recent_first P s" "set s = set xs"
    by auto
  from Cons.prems [of x] obtain tx where x: "\<not> nullish x" "time_of P x = Some tx" by auto
  have "\<And>y. y \<in> set s \<Longrightarrow> \<not> nullish y \<and> time_of P y \<noteq> None"
    using Cons.prems s(3) by simp
  from insert_sorted_recent [OF x this s(2)] obtain r where
    "insert_sorted (compare_lastUpdated P) x s = Inr r" "most_recent_first P r" "set r = insert x (set s)"
    by blast
  with s show ?case by simp
qed

lemma array_sort_recent:
  assumes "\<And>x. x \<in> set xs \<Longrightarrow> \<not> nullish x \<and> time_of P x \<noteq> None"
  shows "\<exists>r. array_sort (compare_lastUpdated P) xs = Inr r \<and> most_recent_first P r"
proof -
  from assms have "\<And>x. x \<in> set xs \<Longrightarrow> x \<noteq> JUndefined" by (auto simp: nullish_def)
  then have "filter (\<lambda>x. x \<noteq> JUndefined) xs = xs" "filter (\<lambda>x. x = JUndefined) xs = []"
    by (simp_all add: filter_id_conv filter_empty_conv)
  moreover from sort_defined_recent [of xs P] assms obtain r where
    "sort_defined (compare_lastUpdated P) xs = Inr r" "most_recent_first P r"
    by blast
  ultimately show ?thesis by (simp add: array_sort_def)
qed


lemma time_of_refreshed:
  "read_prop s ''lastUpdated'' = JStr now \<Longrightarrow> time_of P s = P now"
  by (simp add: time_of_def new_Date_def split: option.splits)

lemma session_not_nullish [simp]:
  "\<not> nullish (updated_session existing chatSession now)" "\<not> nullish (added_session chatSession now)"
  by (simp_all add: updated_session_def added_session_def nullish_def)

lemma saveChatSession_try_defined:
  assumes "\<And>s. s \<in> set stored \<Longrightarrow> \<not> nullish s" and "\<not> nullish chatSession"
  shows "saveChatSession_try P now (Parsed (JArr stored)) chatSession =
           array_sort (compare_lastUpdated P)
             (if \<exists>s \<in> set stored. strict_eq (read_prop s ''id'') (read_prop chatSession ''id'')
              then stored[length (takeWhile (\<lambda>s. \<not> strict_eq (read_prop s ''id'') (read_prop chatSession ''id'')) stored)
                     := updated_session
                          (stored ! length (takeWhile (\<lambda>s. \<not> strict_eq (read_prop s ''id'') (read_prop chatSession ''id'')) stored))
                          chatSession now]
              else stored @ [added_session chatSession now])"
proof -
  let ?p = "\<lambda>session. and_then (get_prop session ''id'') (\<lambda>sid.
                          and_then (get_prop chatSession ''id'') (\<lambda>cid.
                            Inr (strict_eq sid cid)))"
  let ?q = "\<lambda>s. strict_eq (read_prop s ''id'') (read_prop chatSession ''id'')"
  have "array_findIndex ?p stored =
          Inr (if \<exists>x \<in> set stored. ?q x then Some (length (takeWhile (\<lambda>x. \<not> ?q x) stored)) else None)"
    by (rule array_findIndex_total) (simp add: assms)
  then show ?thesis
    by (simp add: saveChatSession_try_def getAllChatHistories_def)
qed

lemma first_match:
  assumes "\<exists>x \<in> set xs. q x"
  shows "length (takeWhile (\<lambda>x. \<not> q x) xs) < length xs"
    and "q (xs ! length (takeWhile (\<lambda>x. \<not> q x) xs))"
    and "\<And>j. j < length (takeWhile (\<lambda>x. \<not> q x) xs) \<Longrightarrow> \<not> q (xs ! j)"
proof -
  show less: "length (takeWhile (\<lambda>x. \<not> q x) xs) < length xs"
    using assms by (induction xs) auto
  from nth_length_takeWhile [OF less] show "q (xs ! length (takeWhile (\<lambda>x. \<not> q x) xs))"
    by simp
  show "\<not> q (xs ! j)" if "j < length (takeWhile (\<lambda>x. \<not> q x) xs)" for j
  proof -
    from that have "takeWhile (\<lambda>x. \<not> q x) xs ! j \<in> set (takeWhile (\<lambda>x. \<not> q x) xs)"
      by simp
    then have "\<not> q (takeWhile (\<lambda>x. \<not> q x) xs ! j)" by (rule set_takeWhileD [THEN conjunct2])
    with that show ?thesis by (simp add: takeWhile_nth)
  qed
qed


text \<open>
  What a save does to the stored list, sessions being the entries of an array without
  \<^verbatim>\<open>null\<close>. A save that succeeds leaves the stored entries a rearrangement of the
  old ones with one change: when the id already occurs, the first entry with that id is
  replaced by its merge with the session and the number of stored sessions is unchanged;
  when the id is fresh, the session is added and the number grows by exactly one. In both
  cases the saved entry's \<^verbatim>\<open>lastUpdated\<close> is the current time. On a list whose
  sessions all carry a valid date of last update the save succeeds and the sort puts the
  most recent first.
\<close>

lemma saveChatSession_upsert:
  assumes "\<forall>s \<in> set stored. \<not> nullish s" and "\<not> nullish chatSession"
  shows
    "(snd (saveChatSession P now (Parsed (JArr stored)) chatSession) \<longrightarrow>
        (\<exists>result.
           fst (saveChatSession P now (Parsed (JArr stored)) chatSession) = Parsed (JArr result) \<and>
           (if \<exists>s \<in> set stored. strict_eq (read_prop s ''id'') (read_prop chatSession ''id'')
            then length result = length stored \<and>
                 (\<exists>i < length stored.
                    strict_eq (read_prop (stored ! i) ''id'') (read_prop chatSession ''id'') \<and>
                    (\<forall>j < i. \<not> strict_eq (read_prop (stored ! j) ''id'') (read_prop chatSession ''id'')) \<and>
                    mset result = mset (stored[i := updated_session (stored ! i) chatSession now]) \<and>
                    read_prop (updated_session (stored ! i) chatSession now) ''lastUpdated'' = JStr now)
            else length result = length stored + 1 \<and>
                 mset result = add_mset (added_session chatSession now) (mset stored) \<and>
                 read_prop (added_session chatSession now) ''lastUpdated'' = JStr now))) \<and>
     ((\<forall>s \<in> set stored. time_of P s \<noteq> None) \<and> P now \<noteq> None \<longrightarrow>
        snd (saveChatSession P now (Parsed (JArr stored)) chatSession) \<and>
        (\<exists>result.
           fst (saveChatSession P now (Parsed (JArr stored)) chatSession) = Parsed (JArr result) \<and>
           most_recent_first P result))"
proof (intro conjI impI)
  let ?q = "\<lambda>s. strict_eq (read_prop s ''id'') (read_prop chatSession ''id'')"
  let ?i = "length (takeWhile (\<lambda>s. \<not> ?q s) stored)"
  let ?U = "if \<exists>s \<in> set stored. ?q s
            then stored[?i := updated_session (stored ! ?i) chatSession now]
            else stored @ [added_session chatSession now]"
  from assms(1) have defined: "\<And>s. s \<in> set stored \<Longrightarrow> \<not> nullish s" by blast
  have tried: "saveChatSession_try P now (Parsed (JArr stored)) chatSession =
               array_sort (compare_lastUpdated P) ?U"
    by (rule saveChatSession_try_defined [OF defined assms(2)])
  show "\<exists>result.
           fst (saveChatSession P now (Parsed (JArr stored)) chatSession) = Parsed (JArr result) \<and>
           (if \<exists>s \<in> set stored. ?q s
            then length result = length stored \<and>
                 (\<exists>i < length stored.
                    ?q (stored ! i) \<and> (\<forall>j < i. \<not> ?q (stored ! j)) \<and>
                    mset result = mset (stored[i := updated_session (stored ! i) chatSession now]) \<and>
                    read_prop (updated_session (stored ! i) chatSession now) ''lastUpdated'' = JStr now)
            else length result = length stored + 1 \<and>
                 mset result = add_mset (added_session chatSession now) (mset stored) \<and>
                 read_prop (added_session chatSession now) ''lastUpdated'' = JStr now)"
    if saved: "snd (saveChatSession P now (Parsed (JArr stored)) chatSession)"
  proof -
    from saved obtain result where
      sorted: "array_sort (compare_lastUpdated P) ?U = Inr result"
      and kept: "fst (saveChatSession P now (Parsed (JArr stored)) chatSession) = Parsed (JArr result)"
      unfolding saveChatSession_def tried
      by (cases "array_sort (compare_lastUpdated P) ?U") simp_all
    from array_sort_mset [OF sorted] have perm: "mset result = mset ?U" .
    then have len: "length result = length ?U" by (rule mset_eq_length)
    show ?thesis
    proof (cases "\<exists>s \<in> set stored. ?q s")
      case True
      note m = first_match [of stored ?q, OF True]
      from True perm len kept m show ?thesis
        by (intro exI [of _ result]) (auto intro!: exI [of _ ?i])
    next
      case False
      with perm len kept show ?thesis
        by (intro exI [of _ result]) simp
    qed
  qed
  show "snd (saveChatSession P now (Parsed (JArr stored)) chatSession)"
    and "\<exists>result.
           fst (saveChatSession P now (Parsed (JArr stored)) chatSession) = Parsed (JArr result) \<and>
           most_recent_first P result"
    if dated: "(\<forall>s \<in> set stored. time_of P s \<noteq> None) \<and> P now \<noteq> None"
  proof -
    have "\<not> nullish x \<and> time_of P x \<noteq> None" if "x \<in> set ?U" for x
    proof (cases "x \<in> set stored")
      case True
      with defined dated show ?thesis by blast
    next
      case False
      from that have "x \<in> insert (updated_session (stored ! ?i) chatSession now) (set stored) \<or>
                      x \<in> insert (added_session chatSession now) (set stored)"
        using set_update_subset_insert [of stored ?i "updated_session (stored ! ?i) chatSession now"]
        by (auto split: if_splits)
      with False have "x = updated_session (stored ! ?i) chatSession now \<or> x = added_session chatSession now"
        by blast
      then have "\<not> nullish x" "read_prop x ''lastUpdated'' = JStr now" by auto
      with time_of_refreshed [of x now P] dated show ?thesis by simp
    qed
    from array_sort_recent [of ?U P] this obtain result where
      "array_sort (compare_lastUpdated P) ?U = Inr result" "most_recent_first P result"
      by blast
    then show "snd (saveChatSession P now (Parsed (JArr stored)) chatSession)"
      and "\<exists>result.
           fst (saveChatSession P now (Parsed (JArr stored)) chatSession) = Parsed (JArr result) \<and>
           most_recent_first P result"
      by (simp_all add: saveChatSession_def tried)
  qed
qed


lemma saveChatSession_upsert_example:
  "snd (saveChatSession parse_two_dates ''2025-01-02T00:00:00.000Z''
          (Parsed (JArr [JObj [(''id'', JStr ''a''), (''lastUpdated'', JStr ''2025-01-01T00:00:00.000Z'')],
                         JObj [(''id'', JStr ''b''), (''lastUpdated'', JStr ''2025-01-01T00:00:00.000Z'')]]))
          (JObj [(''id'', JStr ''b''), (''title'', JStr ''Door seal'')])) \<and>
   (\<exists>result.
      fst (saveChatSession parse_two_dates ''2025-01-02T00:00:00.000Z''
          (Parsed (JArr [JObj [(''id'', JStr ''a''), (''lastUpdated'', JStr ''2025-01-01T00:00:00.000Z'')],
                         JObj [(''id'', JStr ''b''), (''lastUpdated'', JStr ''2025-01-01T00:00:00.000Z'')]]))
          (JObj [(''id'', JStr ''b''), (''title'', JStr ''Door seal'')])) = Parsed (JArr result) \<and>
      length result = 2 \<and>
      most_recent_first parse_two_dates result)"
  using saveChatSession_upsert
    [where P = parse_two_dates and now = "''2025-01-02T00:00:00.000Z''"
       and stored = "[JObj [(''id'', JStr ''a''), (''lastUpdated'', JStr ''2025-01-01T00:00:00.000Z'')],
                      JObj [(''id'', JStr ''b''), (''lastUpdated'', JStr ''2025-01-01T00:00:00.000Z'')]]"
       and chatSession = "JObj [(''id'', JStr ''b''), (''title'', JStr ''Door seal'')]"]
  by (auto simp: nullish_def time_of_def new_Date_def parse_two_dates_def strict_eq_def)

text \<open>
  Claim C8. \<^verbatim>\<open>saveChatSession\<close> is an upsert on the stored session list keyed by
  \<^verbatim>\<open>id\<close>, and the stored list it leaves is sorted by \<^verbatim>\<open>lastUpdated\<close>, most
  recent first, as the comment on its sort says. The code does not keep that order on
  every stored list. The chat window stores its sessions under the same key with a
  \<^verbatim>\<open>timestamp\<close> and no \<^verbatim>\<open>lastUpdated\<close>; next to such an entry the comparator
  answers NaN, nothing moves, and the session just saved (of 2 January) stays last,
  behind one last updated on 1 January.
\<close>

theorem saveChatSession_not_sorted:
  "saveChatSession parse_two_dates ''2025-01-02T00:00:00.000Z''
     (Parsed (JArr [JObj [(''id'', JStr ''a''), (''title'', JStr ''Pump''),
                          (''lastUpdated'', JStr ''2025-01-01T00:00:00.000Z'')],
                    JObj [(''id'', JStr ''u''), (''title'', JStr ''New Conversation''),
                          (''messages'', JArr []),
                          (''timestamp'', JStr ''2025-01-01T00:00:00.000Z'')]]))
     (JObj [(''id'', JStr ''c''), (''title'', JStr ''Door seal'')]) =
   (Parsed (JArr [JObj [(''id'', JStr ''a''), (''title'', JStr ''Pump''),
                        (''lastUpdated'', JStr ''2025-01-01T00:00:00.000Z'')],
                  JObj [(''id'', JStr ''u''), (''title'', JStr ''New Conversation''),
                        (''messages'', JArr []),
                        (''timestamp'', JStr ''2025-01-01T00:00:00.000Z'')],
                  JObj [(''id'', JStr ''c''), (''title'', JStr ''Door seal''),
                        (''lastUpdated'', JStr ''2025-01-02T00:00:00.000Z'')]]), True) \<and>
   \<not> most_recent_first parse_two_dates
       [JObj [(''id'', JStr ''a''), (''title'', JStr ''Pump''),
              (''lastUpdated'', JStr ''2025-01-01T00:00:00.000Z'')],
        JObj [(''id'', JStr ''u''), (''title'', JStr ''New Conversation''),
              (''messages'', JArr []),
              (''timestamp'', JStr ''2025-01-01T00:00:00.000Z'')],
        JObj [(''id'', JStr ''c''), (''title'', JStr ''Door seal''),
              (''lastUpdated'', JStr ''2025-01-02T00:00:00.000Z'')]] \<and>
   time_of parse_two_dates
     (JObj [(''id'', JStr ''a''), (''title'', JStr ''Pump''),
            (''lastUpdated'', JStr ''2025-01-01T00:00:00.000Z'')]) = Some 1735689600000 \<and>
   time_of parse_two_dates
     (JObj [(''id'', JStr ''c''), (''title'', JStr ''Door seal''),
            (''lastUpdated'', JStr ''2025-01-02T00:00:00.000Z'')]) = Some 1735776000000"
  by (simp add: saveChatSession_def saveChatSession_try_def getAllChatHistories_def array_sort_def
      compare_lastUpdated_def new_Date_def parse_two_dates_def strict_eq_def added_session_def
      assign_props_def spread_props_def most_recent_first_def time_of_def)

section \<open>Re-running the ingestion\<close>

lemma keys_after_upsert:
  "map fst (upsert_part hash p store) =
     (if key_of hash p \<in> set (map fst store) then map fst store
      else map fst store @ [key_of hash p])"
  by (induction store) (auto split: if_splits)

lemma keys_upsert_part:
  "set (map fst (upsert_part hash p store)) = insert (key_of hash p) (set (map fst store))"
  by (auto simp: keys_after_upsert)

lemma length_upsert_part_present:
  assumes "key_of hash p \<in> set (map fst store)"
  shows "length (upsert_part hash p store) = length store"
proof -
  have "length (map fst (upsert_part hash p store)) = length (map fst store)"
    using assms by (simp only: keys_after_upsert if_True)
  then show ?thesis by simp
qed

lemma distinct_upsert_part:
  "distinct (map fst store) \<Longrightarrow> distinct (map fst (upsert_part hash p store))"
  by (simp add: keys_after_upsert)

lemma keys_ingest:
  "set (map fst (ingest hash source store)) = key_of hash ` set source \<union> set (map fst store)"
  unfolding ingest_def
  by (induction source arbitrary: store) (auto simp: keys_upsert_part simp del: set_map)

lemma length_ingest_present:
  "key_of hash ` set source \<subseteq> set (map fst store) \<Longrightarrow>
   length (ingest hash source store) = length store"
  unfolding ingest_def
proof (induction source arbitrary: store)
  case Nil
  then show ?case by simp
next
  case (Cons p source)
  from Cons.prems have here: "key_of hash p \<in> set (map fst store)" by simp
  from Cons.prems have "key_of hash ` set source \<subseteq> set (map fst (upsert_part hash p store))"
    unfolding keys_upsert_part by auto
  from Cons.IH [OF this] length_upsert_part_present [OF here] show ?case by simp
qed

lemma distinct_ingest:
  "distinct (map fst store) \<Longrightarrow> distinct (map fst (ingest hash source store))"
  unfolding ingest_def
  by (induction source arbitrary: store) (simp_all add: distinct_upsert_part)

text \<open>
  Claim C6. For every source data set in which each Part carries a non-empty
  \<^verbatim>\<open>manufacturer_number\<close>, running Ingestion a second time on the same source data
  leaves the number of Parts in the catalog store unchanged. Each such Part is keyed by
  its manufacturer number, and a store without duplicate keys has none afterwards.
\<close>

theorem ingest_idempotent:
  assumes "\<forall>p \<in> set source. manufacturer_number p \<noteq> []"
  shows "part_count (ingest hash source (ingest hash source store)) =
           part_count (ingest hash source store) \<and>
         (\<forall>p \<in> set source. key_of hash p = ByManufacturerNumber (manufacturer_number p)) \<and>
         (distinct (map fst store) \<longrightarrow>
            distinct (map fst (ingest hash source (ingest hash source store))))"
proof (intro conjI impI)
  have "key_of hash ` set source \<subseteq> set (map fst (ingest hash source store))"
    unfolding keys_ingest by simp
  then show "part_count (ingest hash source (ingest hash source store)) =
           part_count (ingest hash source store)"
    unfolding part_count_def by (rule length_ingest_present)
  from assms show "\<forall>p \<in> set source. key_of hash p = ByManufacturerNumber (manufacturer_number p)"
    by (simp add: key_of_def)
  show "distinct (map fst (ingest hash source (ingest hash source store)))"
    if "distinct (map fst store)"
    using that by (intro distinct_ingest)
qed

theorem ingest_idempotent_witness:
  "part_count
     (ingest (\<lambda>na. length (fst na) + length (snd na))
        [\<lparr>name = ''Door seal'', manufacturer_number = ''W10195416'', partselect_number = ''PS11752778'',
          price = ''$45.10'', image_url = [], description = [], detail_url = [], stock = in_stock,
          appliance_type = ''dishwasher'', compatible_model_numbers = []\<rparr>,
         \<lparr>name = ''Door seal, grey'', manufacturer_number = ''W10195416'', partselect_number = [],
          price = ''$46.00'', image_url = [], description = [], detail_url = [], stock = unknown,
          appliance_type = ''dishwasher'', compatible_model_numbers = []\<rparr>,
         \<lparr>name = ''Pump'', manufacturer_number = ''WPW10348269'', partselect_number = [],
          price = ''$80.00'', image_url = [], description = [], detail_url = [], stock = out_of_stock,
          appliance_type = ''dishwasher'', compatible_model_numbers = []\<rparr>]
        (ingest (\<lambda>na. length (fst na) + length (snd na))
           [\<lparr>name = ''Door seal'', manufacturer_number = ''W10195416'', partselect_number = ''PS11752778'',
             price = ''$45.10'', image_url = [], description = [], detail_url = [], stock = in_stock,
             appliance_type = ''dishwasher'', compatible_model_numbers = []\<rparr>,
            \<lparr>name = ''Door seal, grey'', manufacturer_number = ''W10195416'', partselect_number = [],
             price = ''$46.00'', image_url = [], description = [], detail_url = [], stock = unknown,
             appliance_type = ''dishwasher'', compatible_model_numbers = []\<rparr>,
            \<lparr>name = ''Pump'', manufacturer_number = ''WPW10348269'', partselect_number = [],
             price = ''$80.00'', image_url = [], description = [], detail_url = [], stock = out_of_stock,
             appliance_type = ''dishwasher'', compatible_model_numbers = []\<rparr>]
           [])) = 2"
  using ingest_idempotent
    [where hash = "\<lambda>na. length (fst na) + length (snd na)" and store = "[]"
      and source = "[\<lparr>name = ''Door seal'', manufacturer_number = ''W10195416'', partselect_number = ''PS11752778'',
          price = ''$45.10'', image_url = [], description = [], detail_url = [], stock = in_stock,
          appliance_type = ''dishwasher'', compatible_model_numbers = []\<rparr>,
         \<lparr>name = ''Door seal, grey'', manufacturer_number = ''W10195416'', partselect_number = [],
          price = ''$46.00'', image_url = [], description = [], detail_url = [], stock = unknown,
          appliance_type = ''dishwasher'', compatible_model_numbers = []\<rparr>,
         \<lparr>name = ''Pump'', manufacturer_number = ''WPW10348269'', partselect_number = [],
          price = ''$80.00'', image_url = [], description = [], detail_url = [], stock = out_of_stock,
          appliance_type = ''dishwasher'', compatible_model_numbers = []\<rparr>]"]
  by (simp add: part_count_def ingest_def key_of_def)

end
